theory Spec2Isabelle
  imports Main "HOL-Library.Word"
begin

unbundle bit_operations_syntax

section \<open>Name-based identifiers: \<open>uuid.uuid5\<close>\<close>

text \<open>
  \<open>_win32_extract\<close> derives the stable part of the temporary file names with
  \<open>uuid.uuid5(ns_uuid, "%s.%s" % (package_name, dll_name))\<close>. The standard library
  computes it as the first 16 bytes of SHA-1 over the namespace bytes followed by the
  name, with the version nibble set to 5 and the variant bits set to \<open>10\<close>. Bytes are
  numbers below 256; the 32-bit arithmetic of SHA-1 is on \<open>32 word\<close>.
\<close>

type_synonym u32 = "32 word"

definition rotl32 :: "nat \<Rightarrow> u32 \<Rightarrow> u32" where
  "rotl32 n x = (push_bit n x) OR (drop_bit (32 - n) x)"

definition be64 :: "nat \<Rightarrow> nat list" where
  "be64 n = [n div 72057594037927936 mod 256, n div 281474976710656 mod 256,
             n div 1099511627776 mod 256, n div 4294967296 mod 256,
             n div 16777216 mod 256, n div 65536 mod 256, n div 256 mod 256, n mod 256]"

definition be32 :: "u32 \<Rightarrow> nat list" where
  "be32 x = [unat x div 16777216 mod 256, unat x div 65536 mod 256,
             unat x div 256 mod 256, unat x mod 256]"

definition sha1_pad :: "nat list \<Rightarrow> nat list" where
  "sha1_pad m =
     m @ [128] @ replicate ((119 - length m mod 64) mod 64) 0 @ be64 (8 * length m)"

fun be_words :: "nat list \<Rightarrow> u32 list" where
  "be_words (a # b # c # d # rest) =
     word_of_nat (((a * 256 + b) * 256 + c) * 256 + d) # be_words rest"
| "be_words _ = []"

definition sha1_ch :: "u32 \<Rightarrow> u32 \<Rightarrow> u32 \<Rightarrow> u32" where
  "sha1_ch b c d = (b AND c) OR (NOT b AND d)"

definition sha1_parity :: "u32 \<Rightarrow> u32 \<Rightarrow> u32 \<Rightarrow> u32" where
  "sha1_parity b c d = b XOR c XOR d"

definition sha1_maj :: "u32 \<Rightarrow> u32 \<Rightarrow> u32 \<Rightarrow> u32" where
  "sha1_maj b c d = (b AND c) OR (b AND d) OR (c AND d)"

type_synonym sha1_state = "u32 \<times> u32 \<times> u32 \<times> u32 \<times> u32"

text \<open>
  \<open>sha1_rounds f k n\<close> runs \<open>n\<close> rounds with the round function \<open>f\<close> and the round
  constant \<open>k\<close>. The window holds the next sixteen words of the message schedule: its
  head is the word of the current round, and each round appends the word sixteen rounds
  ahead.
\<close>

fun sha1_rounds ::
  "(u32 \<Rightarrow> u32 \<Rightarrow> u32 \<Rightarrow> u32) \<Rightarrow> u32 \<Rightarrow> nat \<Rightarrow> u32 list \<Rightarrow> sha1_state
     \<Rightarrow> u32 list \<times> sha1_state" where
  "sha1_rounds f k 0 win s = (win, s)"
| "sha1_rounds f k (Suc n) win (a, b, c, d, e) =
     sha1_rounds f k n
       (tl win @ [rotl32 1 (win ! 13 XOR win ! 8 XOR win ! 2 XOR win ! 0)])
       (rotl32 5 a + f b c d + e + k + hd win, a, rotl32 30 b, c, d)"

text \<open>Eighty rounds: twenty with each round function and constant.\<close>

definition sha1_block :: "sha1_state \<Rightarrow> u32 list \<Rightarrow> sha1_state" where
  "sha1_block s win =
     (case s of (h0, h1, h2, h3, h4) \<Rightarrow>
      case sha1_rounds sha1_ch 0x5A827999 20 win s of (win1, s1) \<Rightarrow>
      case sha1_rounds sha1_parity 0x6ED9EBA1 20 win1 s1 of (win2, s2) \<Rightarrow>
      case sha1_rounds sha1_maj 0x8F1BBCDC 20 win2 s2 of (win3, s3) \<Rightarrow>
      case sha1_rounds sha1_parity 0xCA62C1D6 20 win3 s3 of (win4, (a, b, c, d, e)) \<Rightarrow>
        (h0 + a, h1 + b, h2 + c, h3 + d, h4 + e))"

fun sha1_blocks :: "sha1_state \<Rightarrow> u32 list \<Rightarrow> sha1_state" where
  "sha1_blocks s (w0 # ws) =
     sha1_blocks (sha1_block s (take 16 (w0 # ws))) (drop 16 (w0 # ws))"
| "sha1_blocks s [] = s"

definition sha1 :: "nat list \<Rightarrow> nat list" where
  "sha1 m =
     (case sha1_blocks (0x67452301, 0xEFCDAB89, 0x98BADCFE, 0x10325476, 0xC3D2E1F0)
             (be_words (sha1_pad m))
      of (a, b, c, d, e) \<Rightarrow> be32 a @ be32 b @ be32 c @ be32 d @ be32 e)"

definition uuid5 :: "nat list \<Rightarrow> string \<Rightarrow> nat list" where
  "uuid5 namespace name =
     (let h = take 16 (sha1 (namespace @ map of_char name))
      in h[6 := h ! 6 mod 16 + 80, 8 := h ! 8 mod 64 + 128])"

definition hex_digit :: "nat \<Rightarrow> char" where
  "hex_digit n = ''0123456789abcdef'' ! (n mod 16)"

definition hex_byte :: "nat \<Rightarrow> string" where
  "hex_byte b = [hex_digit (b div 16), hex_digit b]"

text \<open>\<open>str(UUID)\<close>: 32 lower-case hex digits grouped 8-4-4-4-12.\<close>

definition uuid_str :: "nat list \<Rightarrow> string" where
  "uuid_str bs =
     (let h = concat (map hex_byte bs)
      in take 8 h @ ''-'' @ take 4 (drop 8 h) @ ''-'' @ take 4 (drop 12 h) @ ''-''
         @ take 4 (drop 16 h) @ ''-'' @ drop 20 h)"

text \<open>\<open>uuid.UUID('125626a0-9d3a-4aeb-b2ed-5770cb0665cc').bytes\<close>\<close>

definition ns_uuid :: "nat list" where
  "ns_uuid = [0x12, 0x56, 0x26, 0xa0, 0x9d, 0x3a, 0x4a, 0xeb,
              0xb2, 0xed, 0x57, 0x70, 0xcb, 0x06, 0x65, 0xcc]"

section \<open>Exceptions, paths and the loader object\<close>

text \<open>
  A path is the pair of its directory and its base name: \<open>os.path.join\<close> is pairing,
  \<open>os.path.dirname\<close> and \<open>os.path.basename\<close> are the projections. The base names the
  code handles come from \<open>os.listdir\<close> and from \<open>tempfile\<close>, and hold no separator.
\<close>

type_synonym path = "string \<times> string"

text \<open>
  \<open>WindowsError\<close> is what \<open>os.unlink\<close> and \<open>os.listdir\<close> raise; \<open>Win32Error\<close> is
  \<open>pywintypes.error\<close>, which both \<open>win32file.error\<close> and \<open>win32api.error\<close> name. Both carry
  the \<open>winerror\<close> code. \<open>ValueError\<close> carries the base name that did not match,
  \<open>BrokenTempDirError\<close> the directory that its message shows.
\<close>

datatype exn =
    WindowsError nat
  | Win32Error nat
  | IOError string
  | NotImplementedError
  | ValueError string
  | AssertionError string
  | BrokenTempDirError string
  | OtherError string

definition ERROR_FILE_NOT_FOUND :: nat where "ERROR_FILE_NOT_FOUND = 2"
definition ERROR_ACCESS_DENIED :: nat where "ERROR_ACCESS_DENIED = 5"
definition ERROR_SHARING_VIOLATION :: nat where "ERROR_SHARING_VIOLATION = 32"
definition ERROR_FILE_EXISTS :: nat where "ERROR_FILE_EXISTS = 80"
definition ERROR_MOD_NOT_FOUND :: nat where "ERROR_MOD_NOT_FOUND = 126"

text \<open>
  The class attributes and what the process gets from its surroundings without change
  during a run: \<open>sys.platform\<close>, what \<open>pkg_resources.resource_filename\<close> and
  \<open>pkg_resources.resource_stream\<close> give for the library, and \<open>tempfile.TMP_MAX\<close>.
\<close>

record config =
  package_name :: string
  dll_name :: string
  platform :: string
  resource_filename :: "exn + path"
  resource_stream :: "exn + string"
  TMP_MAX :: nat

text \<open>
  The instance fields set by \<open>__init__\<close>. The lock file object is kept as the path of the
  file it holds open. \<open>_lock\<close> is not a field here: the model runs one call at a time.
\<close>

record loader =
  extracted_lockfile :: "path option"
  extracted_filename :: "path option"

definition init :: loader where
  "init = \<lparr>extracted_lockfile = None, extracted_filename = None\<rparr>"

section \<open>The file system, the library loader and the trace sink\<close>

text \<open>
  A file has its bytes and a flag telling whether some handle without delete sharing is
  open on it. That flag is what makes Windows refuse a delete with a sharing violation.
\<close>

record file_state =
  content :: string
  held :: bool

datatype op =
    OpListdir string
  | OpUnlink path
  | OpOpenExcl path
  | OpCreateNew path
  | OpOpenExisting path
  | OpCopy path
  | OpClose path
  | OpLoadLibrary path

text \<open>
  Every call that reaches the operating system is recorded, in order. \<open>EvLoadLibrary\<close>
  also records the file as the loader finds it at that moment. The last two events are
  the calls of \<open>unhandled_exc_handler\<close> and \<open>report_bad_assumption\<close>; \<open>TRACE\<close> lines are
  not recorded.
\<close>

datatype event =
    EvListdir string
  | EvUnlink path
  | EvOpenExcl path
  | EvCreateNew path
  | EvOpenExisting path
  | EvCopy path
  | EvClose path
  | EvLoadLibrary path "file_state option"
  | EvFreeLibrary path
  | EvUnhandledExc exn
  | EvBadAssumption path

text \<open>
  The world outside the loader object: the files, the temporary directory, the names
  that \<open>tempfile\<close>'s random sequence will produce, the libraries loaded in the process,
  failures that the surroundings force on a call (another process, an antivirus tool,
  stripped permissions), and the record of calls.
\<close>

record world =
  files :: "(path \<times> file_state) list"
  temp_dir :: string
  tokens :: "nat \<Rightarrow> string"
  next_token :: nat
  loaded :: "path list"
  fault :: "op \<Rightarrow> exn option"
  trace :: "event list"

definition log :: "event \<Rightarrow> world \<Rightarrow> world" where
  "log e w = w\<lparr>trace := trace w @ [e]\<rparr>"

definition fs_remove :: "path \<Rightarrow> (path \<times> file_state) list \<Rightarrow> (path \<times> file_state) list" where
  "fs_remove p fs = filter (\<lambda>kf. fst kf \<noteq> p) fs"

definition fs_update ::
  "path \<Rightarrow> (file_state \<Rightarrow> file_state) \<Rightarrow> (path \<times> file_state) list \<Rightarrow> (path \<times> file_state) list" where
  "fs_update p g fs = map (\<lambda>kf. if fst kf = p then (fst kf, g (snd kf)) else kf) fs"

definition gettempdir :: "world \<Rightarrow> string" where
  "gettempdir w = temp_dir w"

definition os_path_exists :: "path \<Rightarrow> world \<Rightarrow> bool" where
  "os_path_exists p w = (map_of (files w) p \<noteq> None)"

definition os_listdir :: "string \<Rightarrow> world \<Rightarrow> (exn + string list) \<times> world" where
  "os_listdir d w =
     (let w1 = log (EvListdir d) w in
      case fault w (OpListdir d) of
        Some e \<Rightarrow> (Inl e, w1)
      | None \<Rightarrow> (Inr (map (\<lambda>kf. snd (fst kf)) (filter (\<lambda>kf. fst (fst kf) = d) (files w))), w1))"

text \<open>
  \<open>os.unlink\<close>: a missing file is \<open>ERROR_FILE_NOT_FOUND\<close>, a file that is held open is
  \<open>ERROR_SHARING_VIOLATION\<close>, otherwise the file goes.
\<close>

definition os_unlink :: "path \<Rightarrow> world \<Rightarrow> (exn + unit) \<times> world" where
  "os_unlink p w =
     (let w1 = log (EvUnlink p) w in
      case fault w (OpUnlink p) of
        Some e \<Rightarrow> (Inl e, w1)
      | None \<Rightarrow>
          (case map_of (files w) p of
             None \<Rightarrow> (Inl (WindowsError ERROR_FILE_NOT_FOUND), w1)
           | Some f \<Rightarrow>
               if held f then (Inl (WindowsError ERROR_SHARING_VIOLATION), w1)
               else (Inr (), w1\<lparr>files := fs_remove p (files w1)\<rparr>)))"

text \<open>
  \<open>tempfile.NamedTemporaryFile(prefix, suffix, delete=False)\<close>: the library draws names
  from its random sequence and opens each with \<open>O_EXCL\<close>, going on to the next name when
  the file exists, at most \<open>TMP_MAX\<close> times. The file it creates stays open.
\<close>

fun mkstemp_inner ::
  "nat \<Rightarrow> string \<Rightarrow> string \<Rightarrow> string \<Rightarrow> world \<Rightarrow> (exn + path) \<times> world" where
  "mkstemp_inner 0 dir pre suf w =
     (Inl (IOError ''No usable temporary file name found''), w)"
| "mkstemp_inner (Suc n) dir pre suf w =
     (let p = (dir, pre @ tokens w (next_token w) @ suf);
          w1 = log (EvOpenExcl p) (w\<lparr>next_token := Suc (next_token w)\<rparr>) in
      case fault w (OpOpenExcl p) of
        Some e \<Rightarrow> (Inl e, w1)
      | None \<Rightarrow>
          if map_of (files w) p \<noteq> None then mkstemp_inner n dir pre suf w1
          else (Inr p, w1\<lparr>files := (p, \<lparr>content = [], held = True\<rparr>) # files w1\<rparr>))"

definition NamedTemporaryFile ::
  "config \<Rightarrow> string \<Rightarrow> string \<Rightarrow> world \<Rightarrow> (exn + path) \<times> world" where
  "NamedTemporaryFile cfg pre suf w = mkstemp_inner (TMP_MAX cfg) (gettempdir w) pre suf w"

text \<open>\<open>win32file.CreateFileW\<close> with \<open>CREATE_NEW\<close> and no sharing.\<close>

definition CreateFileW_new :: "path \<Rightarrow> world \<Rightarrow> (exn + unit) \<times> world" where
  "CreateFileW_new p w =
     (let w1 = log (EvCreateNew p) w in
      case fault w (OpCreateNew p) of
        Some e \<Rightarrow> (Inl e, w1)
      | None \<Rightarrow>
          if map_of (files w) p \<noteq> None then (Inl (Win32Error ERROR_FILE_EXISTS), w1)
          else (Inr (), w1\<lparr>files := (p, \<lparr>content = [], held = True\<rparr>) # files w1\<rparr>))"

text \<open>
  \<open>win32file.CreateFileW\<close> with \<open>OPEN_EXISTING\<close> and no sharing, closed at once by the
  caller: the files stay as they are.
\<close>

definition CreateFileW_existing :: "path \<Rightarrow> world \<Rightarrow> (exn + unit) \<times> world" where
  "CreateFileW_existing p w =
     (let w1 = log (EvOpenExisting p) w in
      case fault w (OpOpenExisting p) of
        Some e \<Rightarrow> (Inl e, w1)
      | None \<Rightarrow>
          (case map_of (files w) p of
             None \<Rightarrow> (Inl (Win32Error ERROR_FILE_NOT_FOUND), w1)
           | Some f \<Rightarrow>
               if held f then (Inl (Win32Error ERROR_SHARING_VIOLATION), w1)
               else (Inr (), w1)))"

text \<open>\<open>shutil.copyfileobj(infile, dllfile)\<close> into the open library file.\<close>

definition copyfileobj :: "string \<Rightarrow> path \<Rightarrow> world \<Rightarrow> (exn + unit) \<times> world" where
  "copyfileobj payload p w =
     (let w1 = log (EvCopy p) w in
      case fault w (OpCopy p) of
        Some e \<Rightarrow> (Inl e, w1)
      | None \<Rightarrow> (Inr (), w1\<lparr>files := fs_update p (\<lambda>f. f\<lparr>content := payload\<rparr>) (files w1)\<rparr>))"

definition file_close :: "path \<Rightarrow> world \<Rightarrow> (exn + unit) \<times> world" where
  "file_close p w =
     (let w1 = log (EvClose p) w in
      case fault w (OpClose p) of
        Some e \<Rightarrow> (Inl e, w1)
      | None \<Rightarrow> (Inr (), w1\<lparr>files := fs_update p (\<lambda>f. f\<lparr>held := False\<rparr>) (files w1)\<rparr>))"

text \<open>\<open>win32api.LoadLibrary\<close> gives the loaded library's handle, here its path.\<close>

definition LoadLibrary :: "path \<Rightarrow> world \<Rightarrow> (exn + path) \<times> world" where
  "LoadLibrary p w =
     (let w1 = log (EvLoadLibrary p (map_of (files w) p)) w in
      case fault w (OpLoadLibrary p) of
        Some e \<Rightarrow> (Inl e, w1)
      | None \<Rightarrow>
          (case map_of (files w) p of
             None \<Rightarrow> (Inl (Win32Error ERROR_MOD_NOT_FOUND), w1)
           | Some f \<Rightarrow> (Inr p, w1\<lparr>loaded := p # loaded w1\<rparr>)))"

definition FreeLibrary :: "path \<Rightarrow> world \<Rightarrow> world" where
  "FreeLibrary h w = (log (EvFreeLibrary h) w)\<lparr>loaded := remove1 h (loaded w)\<rparr>"

definition unhandled_exc_handler :: "exn \<Rightarrow> world \<Rightarrow> world" where
  "unhandled_exc_handler e w = log (EvUnhandledExc e) w"

definition report_bad_assumption :: "path \<Rightarrow> world \<Rightarrow> world" where
  "report_bad_assumption p w = log (EvBadAssumption p) w"

section \<open>The regular expressions of \<open>_win32_extract\<close>\<close>

text \<open>
  Both patterns have the shape \<open>"^(%s.*)%s$" % (re.escape(prefix), re.escape(suffix))\<close>
  with flags \<open>re.I | re.S\<close>: the prefix and the suffix are matched literally up to ASCII
  case, \<open>.*\<close> is greedy and matches any character, and \<open>$\<close> matches at the end of the
  string and also just before a newline that ends the string. \<open>regex_search\<close> gives
  \<open>m.group(1)\<close> when there is a match.
\<close>

definition ascii_lower :: "char \<Rightarrow> char" where
  "ascii_lower c =
     (case map_of (zip ''ABCDEFGHIJKLMNOPQRSTUVWXYZ'' ''abcdefghijklmnopqrstuvwxyz'') c of
        Some l \<Rightarrow> l
      | None \<Rightarrow> c)"

definition ci_eq :: "string \<Rightarrow> string \<Rightarrow> bool" where
  "ci_eq a b = (map ascii_lower a = map ascii_lower b)"

definition match_end :: "string \<Rightarrow> string \<Rightarrow> string \<Rightarrow> bool" where
  "match_end pre suf s =
     (length pre + length suf \<le> length s
      \<and> ci_eq (take (length pre) s) pre
      \<and> ci_eq (drop (length s - length suf) s) suf)"

definition regex_search :: "string \<Rightarrow> string \<Rightarrow> string \<Rightarrow> string option" where
  "regex_search pre suf s =
     (if match_end pre suf s then Some (take (length s - length suf) s)
      else if s \<noteq> [] \<and> last s = CHR 0x0A \<and> match_end pre suf (butlast s)
      then Some (take (length s - 1 - length suf) s)
      else None)"

section \<open>The class \<open>DropboxSqliteExtension\<close>\<close>

definition dll_suffix :: "config \<Rightarrow> string" where
  "dll_suffix cfg =
     (if platform cfg = ''win32'' then ''.dll''
      else if platform cfg = ''darwin'' then ''.dylib''
      else ''.so'')"

definition dll_basename :: "config \<Rightarrow> string" where
  "dll_basename cfg = dll_name cfg @ dll_suffix cfg"

text \<open>\<open>dll_uuid\<close>, printed as \<open>tmp_prefix\<close> prints it.\<close>

definition dll_uuid :: "config \<Rightarrow> string" where
  "dll_uuid cfg = uuid_str (uuid5 ns_uuid (package_name cfg @ ''.'' @ dll_name cfg))"

definition tmp_prefix :: "config \<Rightarrow> string" where
  "tmp_prefix cfg = dll_name cfg @ ''.{'' @ dll_uuid cfg @ ''}.tmp''"

definition lck_suffix :: string where
  "lck_suffix = ''.lck''"

definition dll_to_lck :: "config \<Rightarrow> path \<Rightarrow> exn + path" where
  "dll_to_lck cfg dllfilename =
     (case regex_search (tmp_prefix cfg) (dll_suffix cfg) (snd dllfilename) of
        None \<Rightarrow> Inl (ValueError (snd dllfilename))
      | Some g \<Rightarrow> Inr (fst dllfilename, g @ lck_suffix))"

definition lck_to_dll :: "config \<Rightarrow> path \<Rightarrow> exn + path" where
  "lck_to_dll cfg lckfilename =
     (case regex_search (tmp_prefix cfg) lck_suffix (snd lckfilename) of
        None \<Rightarrow> Inl (ValueError (snd lckfilename))
      | Some g \<Rightarrow> Inr (fst lckfilename, g @ dll_suffix cfg))"

text \<open>
  \<open>can_read_and_execute\<close>: \<open>False\<close> when the open is refused with access denied, any
  other failure of the open is raised again.
\<close>

definition can_read_and_execute :: "path \<Rightarrow> world \<Rightarrow> (exn + bool) \<times> world" where
  "can_read_and_execute filename w =
     (case CreateFileW_existing filename w of
        (Inr u, w1) \<Rightarrow> (Inr True, w1)
      | (Inl (Win32Error n), w1) \<Rightarrow>
          if n = ERROR_ACCESS_DENIED then (Inr False, w1) else (Inl (Win32Error n), w1)
      | (Inl e, w1) \<Rightarrow> (Inl e, w1))"

subsection \<open>Deleting old files that match the prefix\<close>

text \<open>The second \<open>try\<close> of the loop body: \<open>os.unlink(filename)\<close> on the library file.\<close>

definition delete_dll :: "path \<Rightarrow> world \<Rightarrow> (exn + unit) \<times> world" where
  "delete_dll filename w =
     (case os_unlink filename w of
        (Inr u, w1) \<Rightarrow> (Inr (), w1)
      | (Inl (WindowsError n), w1) \<Rightarrow>
          if n = ERROR_FILE_NOT_FOUND then (Inr (), w1)
          else (Inr (), unhandled_exc_handler (WindowsError n) w1)
      | (Inl e, w1) \<Rightarrow> (Inl e, w1))"

text \<open>
  One pass of the loop body for one directory entry. \<open>Inr\<close> is the end of the pass, by
  falling through or by \<open>continue\<close>; \<open>Inl\<close> is an exception that leaves the loop.
\<close>

definition scan_entry :: "config \<Rightarrow> string \<Rightarrow> string \<Rightarrow> world \<Rightarrow> (exn + unit) \<times> world" where
  "scan_entry cfg dir basename w =
     (case regex_search (tmp_prefix cfg) (dll_suffix cfg) basename of
        None \<Rightarrow> (Inr (), w)
      | Some g \<Rightarrow>
          (case dll_to_lck cfg (dir, basename) of
             Inl e \<Rightarrow> (Inl e, w)
           | Inr lockfilename \<Rightarrow>
               (case os_unlink lockfilename w of
                  (Inr u, w1) \<Rightarrow> delete_dll (dir, basename) w1
                | (Inl (WindowsError n), w1) \<Rightarrow>
                    if n = ERROR_FILE_NOT_FOUND then delete_dll (dir, basename) w1
                    else if n = ERROR_SHARING_VIOLATION then (Inr (), w1)
                    else (Inr (), unhandled_exc_handler (WindowsError n) w1)
                | (Inl e, w1) \<Rightarrow> (Inl e, w1))))"

fun scan_loop :: "config \<Rightarrow> string \<Rightarrow> string list \<Rightarrow> world \<Rightarrow> (exn + unit) \<times> world" where
  "scan_loop cfg dir [] w = (Inr (), w)"
| "scan_loop cfg dir (basename # rest) w =
     (case scan_entry cfg dir basename w of
        (Inl e, w1) \<Rightarrow> (Inl e, w1)
      | (Inr u, w1) \<Rightarrow> scan_loop cfg dir rest w1)"

text \<open>The statements inside the outer \<open>try\<close>.\<close>

definition scan_body :: "config \<Rightarrow> string \<Rightarrow> world \<Rightarrow> (exn + unit) \<times> world" where
  "scan_body cfg dir w =
     (case os_listdir dir w of
        (Inl e, w1) \<Rightarrow> (Inl e, w1)
      | (Inr names, w1) \<Rightarrow> scan_loop cfg dir names w1)"

text \<open>The outer \<open>try\<close> with its bare \<open>except\<close>.\<close>

definition delete_old_files :: "config \<Rightarrow> string \<Rightarrow> world \<Rightarrow> (exn + unit) \<times> world" where
  "delete_old_files cfg dir w =
     (case scan_body cfg dir w of
        (Inl e, w1) \<Rightarrow> (Inr (), unhandled_exc_handler e w1)
      | (Inr u, w1) \<Rightarrow> (Inr (), w1))"

subsection \<open>Creating the pair of files\<close>

text \<open>
  The loop \<open>for retry in range(10)\<close> with its \<open>else\<close>. The body ends in \<open>break\<close> and has
  no \<open>continue\<close> and no handler, so the second equation does not call the loop again.
\<close>

fun create_pair_loop :: "config \<Rightarrow> nat list \<Rightarrow> world \<Rightarrow> (exn + path \<times> path) \<times> world" where
  "create_pair_loop cfg [] w =
     (Inl (AssertionError ''Too many retries when attempting to create temporary file''), w)"
| "create_pair_loop cfg (retry # rest) w =
     (case NamedTemporaryFile cfg (tmp_prefix cfg) lck_suffix w of
        (Inl e, w1) \<Rightarrow> (Inl e, w1)
      | (Inr lockfilename, w1) \<Rightarrow>
          (case lck_to_dll cfg lockfilename of
             Inl e \<Rightarrow> (Inl e, w1)
           | Inr dllfilename \<Rightarrow>
               (case CreateFileW_new dllfilename w1 of
                  (Inl e, w2) \<Rightarrow> (Inl e, w2)
                | (Inr u, w2) \<Rightarrow> (Inr (lockfilename, dllfilename), w2))))"

definition create_pair :: "config \<Rightarrow> world \<Rightarrow> (exn + path \<times> path) \<times> world" where
  "create_pair cfg w = create_pair_loop cfg [0..<10] w"

subsection \<open>The sanity check on the lock file\<close>

definition sanity_check :: "path \<Rightarrow> world \<Rightarrow> (exn + unit) \<times> world" where
  "sanity_check lockfilename w =
     (case os_unlink lockfilename w of
        (Inl (WindowsError n), w1) \<Rightarrow>
          (let w2 = (if n \<noteq> ERROR_SHARING_VIOLATION
                     then unhandled_exc_handler (WindowsError n) w1 else w1)
           in (Inr (), if \<not> os_path_exists lockfilename w2
                       then report_bad_assumption lockfilename w2 else w2))
      | (Inl e, w1) \<Rightarrow> (Inl e, w1)
      | (Inr u, w1) \<Rightarrow>
          (let w2 = report_bad_assumption lockfilename w1
           in (Inr (), if \<not> os_path_exists lockfilename w2
                       then report_bad_assumption lockfilename w2 else w2)))"

subsection \<open>Writing the library and testing that it loads\<close>

definition write_dll :: "config \<Rightarrow> path \<Rightarrow> world \<Rightarrow> (exn + unit) \<times> world" where
  "write_dll cfg dllfilename w =
     (case resource_stream cfg of
        Inl e \<Rightarrow> (Inl e, w)
      | Inr payload \<Rightarrow>
          (case copyfileobj payload dllfilename w of
             (Inl e, w1) \<Rightarrow> (Inl e, w1)
           | (Inr u, w1) \<Rightarrow> file_close dllfilename w1))"

definition test_load :: "path \<Rightarrow> world \<Rightarrow> (exn + unit) \<times> world" where
  "test_load dllfilename w =
     (case LoadLibrary dllfilename w of
        (Inr dllhandle, w1) \<Rightarrow> (Inr (), FreeLibrary dllhandle w1)
      | (Inl (Win32Error n), w1) \<Rightarrow>
          if n = ERROR_ACCESS_DENIED then
            (case can_read_and_execute dllfilename w1 of
               (Inl e2, w2) \<Rightarrow> (Inl e2, w2)
             | (Inr False, w2) \<Rightarrow> (Inl (BrokenTempDirError (fst dllfilename)), w2)
             | (Inr True, w2) \<Rightarrow> (Inl (Win32Error n), w2))
          else (Inl (Win32Error n), w1)
      | (Inl e, w1) \<Rightarrow> (Inl e, w1))"

subsection \<open>\<open>_win32_extract\<close> and \<open>dll_filename\<close>\<close>

text \<open>From \<open>Safely create a .dll & .lck pair\<close> to the end of \<open>_win32_extract\<close>.\<close>

definition create_and_test ::
  "config \<Rightarrow> loader \<Rightarrow> world \<Rightarrow> (exn + unit) \<times> loader \<times> world" where
  "create_and_test cfg self w1 =
     (case create_pair cfg w1 of
        (Inl e, w2) \<Rightarrow> (Inl e, self, w2)
      | (Inr (lockfilename, dllfilename), w2) \<Rightarrow>
     (case sanity_check lockfilename w2 of
        (Inl e, w3) \<Rightarrow> (Inl e, self, w3)
      | (Inr u, w3) \<Rightarrow>
     (case write_dll cfg dllfilename w3 of
        (Inl e, w4) \<Rightarrow> (Inl e, self, w4)
      | (Inr u, w4) \<Rightarrow>
     (case test_load dllfilename w4 of
        (Inl e, w5) \<Rightarrow> (Inl e, self, w5)
      | (Inr u, w5) \<Rightarrow>
          (Inr (),
           self\<lparr>extracted_lockfile := Some lockfilename,
                extracted_filename := Some dllfilename\<rparr>,
           w5)))))"

definition win32_extract :: "config \<Rightarrow> loader \<Rightarrow> world \<Rightarrow> (exn + unit) \<times> loader \<times> world" where
  "win32_extract cfg self w =
     (case delete_old_files cfg (gettempdir w) w of
        (Inl e, w1) \<Rightarrow> (Inl e, self, w1)
      | (Inr u, w1) \<Rightarrow> create_and_test cfg self w1)"

text \<open>
  The property \<open>dll_filename\<close>. Its value is a path, or \<open>None\<close> as far as the types go,
  since the last \<open>return\<close> reads the field back.
\<close>

definition dll_filename ::
  "config \<Rightarrow> loader \<Rightarrow> world \<Rightarrow> (exn + path option) \<times> loader \<times> world" where
  "dll_filename cfg self w =
     (case resource_filename cfg of
        Inr p \<Rightarrow> (Inr (Some p), self, w)
      | Inl NotImplementedError \<Rightarrow>
          if extracted_filename self \<noteq> None then (Inr (extracted_filename self), self, w)
          else if take 3 (platform cfg) = ''win'' then
            (case win32_extract cfg self w of
               (Inl e, self1, w1) \<Rightarrow> (Inl e, self1, w1)
             | (Inr u, self1, w1) \<Rightarrow> (Inr (extracted_filename self1), self1, w1))
          else (Inl NotImplementedError, self, w)
      | Inl e \<Rightarrow> (Inl e, self, w))"

section \<open>The module's loader and sample surroundings\<close>

text \<open>
  \<open>_loader\<close> in a py2exe build on Windows: \<open>resource_filename\<close> raises
  \<open>NotImplementedError\<close> and the library comes as a stream.
\<close>

definition loader_config :: config where
  "loader_config =
     \<lparr>package_name = ''dropbox_sqlite_ext'', dll_name = ''dropbox_sqlite_ext'',
      platform = ''win32'', resource_filename = Inl NotImplementedError,
      resource_stream = Inr ''MZ-payload'', TMP_MAX = 10000\<rparr>"

definition sample_tokens :: "nat \<Rightarrow> string" where
  "sample_tokens n = (if n = 0 then ''fc6wu2'' else if n = 1 then ''q8_zrk'' else ''m3tt0p'')"

text \<open>An empty temporary directory and nothing going wrong.\<close>

definition empty_world :: world where
  "empty_world =
     \<lparr>files = [], temp_dir = ''Temp'', tokens = sample_tokens, next_token = 0,
      loaded = [], fault = (\<lambda>x. None), trace = []\<rparr>"

definition new_events :: "world \<Rightarrow> world \<Rightarrow> event list" where
  "new_events w w' = drop (length (trace w)) (trace w')"

definition sample_lock :: path where
  "sample_lock = (''Temp'', tmp_prefix loader_config @ ''fc6wu2.lck'')"

definition sample_dll :: path where
  "sample_dll = (''Temp'', tmp_prefix loader_config @ ''fc6wu2.dll'')"

text \<open>The world after one extraction into the empty temporary directory.\<close>

definition extracted_world :: world where
  "extracted_world =
     empty_world
       \<lparr>files := [(sample_dll, \<lparr>content = ''MZ-payload'', held = False\<rparr>),
                  (sample_lock, \<lparr>content = [], held = True\<rparr>)],
        next_token := 1,
        trace := [EvListdir ''Temp'', EvOpenExcl sample_lock, EvCreateNew sample_dll,
                  EvUnlink sample_lock, EvCopy sample_dll, EvClose sample_dll,
                  EvLoadLibrary sample_dll (Some \<lparr>content = ''MZ-payload'', held = False\<rparr>),
                  EvFreeLibrary sample_dll]\<rparr>"

definition extracted_loader :: loader where
  "extracted_loader =
     \<lparr>extracted_lockfile = Some sample_lock, extracted_filename = Some sample_dll\<rparr>"

text \<open>
  The events of the cleanup pass, of the creation of the pair and of the sanity check:
  none of them writes the library, closes it, loads it or opens it for reading.
\<close>

definition quiet :: "event \<Rightarrow> bool" where
  "quiet e =
     (case e of
        EvCopy p \<Rightarrow> False
      | EvClose p \<Rightarrow> False
      | EvLoadLibrary p f \<Rightarrow> False
      | EvFreeLibrary p \<Rightarrow> False
      | EvOpenExisting p \<Rightarrow> False
      | _ \<Rightarrow> True)"


text \<open>
  A temporary directory whose files may be neither loaded nor opened for reading and
  executing: both calls are refused with access denied.
\<close>

definition denied_world :: world where
  "denied_world =
     empty_world\<lparr>fault := (\<lambda>x. if x = OpLoadLibrary sample_dll \<or> x = OpOpenExisting sample_dll
                                then Some (Win32Error ERROR_ACCESS_DENIED) else None)\<rparr>"

text \<open>
  The library of the extracted world cannot be loaded, and another program (a virus
  scanner, say) holds it open, so that opening it is refused with a sharing violation.
\<close>

definition scanned_world :: world where
  "scanned_world =
     extracted_world\<lparr>fault := (\<lambda>x. if x = OpLoadLibrary sample_dll
                                     then Some (Win32Error ERROR_ACCESS_DENIED)
                                   else if x = OpOpenExisting sample_dll
                                     then Some (Win32Error ERROR_SHARING_VIOLATION)
                                   else None)\<rparr>"

text \<open>The same files with access denied to both calls.\<close>

definition stripped_world :: world where
  "stripped_world = extracted_world\<lparr>fault := fault denied_world\<rparr>"

text \<open>The same files, and the loader finds no library in the file (error 193).\<close>

definition garbled_world :: world where
  "garbled_world =
     extracted_world\<lparr>fault := (\<lambda>x. if x = OpLoadLibrary sample_dll
                                     then Some (Win32Error 193) else None)\<rparr>"

text \<open>The pair of files that an earlier run left in the temporary directory.\<close>

definition old_lock :: path where
  "old_lock = (''Temp'', tmp_prefix loader_config @ ''0ldrun.lck'')"

definition old_dll :: path where
  "old_dll = (''Temp'', tmp_prefix loader_config @ ''0ldrun.dll'')"

text \<open>The earlier process is gone: nothing holds the two files.\<close>

definition orphan_world :: world where
  "orphan_world =
     empty_world\<lparr>files := [(old_dll, \<lparr>content = ''MZ-old'', held = False\<rparr>),
                            (old_lock, \<lparr>content = [], held = False\<rparr>)]\<rparr>"

text \<open>The lock file is gone already, the library is still there.\<close>

definition lockless_world :: world where
  "lockless_world =
     empty_world\<lparr>files := [(old_dll, \<lparr>content = ''MZ-old'', held = False\<rparr>)]\<rparr>"

text \<open>The earlier process still runs: it holds its lock file and the library open.\<close>

definition busy_world :: world where
  "busy_world =
     empty_world\<lparr>files := [(old_dll, \<lparr>content = ''MZ-old'', held = True\<rparr>),
                            (old_lock, \<lparr>content = [], held = True\<rparr>)]\<rparr>"

text \<open>
  The library left by an earlier run is still held open by another process, its lock
  file is gone, and the next name that \<open>tempfile\<close> draws is the name of that run.
\<close>

definition collision_world :: world where
  "collision_world =
     empty_world\<lparr>files := [(sample_dll, \<lparr>content = ''MZ-old'', held = True\<rparr>)]\<rparr>"

text \<open>\<open>precedes a b evs\<close>: \<open>b\<close> occurs in \<open>evs\<close> at or after the first \<open>a\<close>.\<close>

definition precedes :: "event \<Rightarrow> event \<Rightarrow> event list \<Rightarrow> bool" where
  "precedes a b evs = (b \<in> set (dropWhile (\<lambda>e. e \<noteq> a) evs))"

text \<open>
  A later process finds the orphaned pair; \<open>tempfile\<close>'s sequence has moved on by one
  name.
\<close>

definition later_world :: world where
  "later_world = orphan_world\<lparr>next_token := 1\<rparr>"

definition later_dll :: path where
  "later_dll = (''Temp'', tmp_prefix loader_config @ ''q8_zrk.dll'')"

section \<open>Evaluating the names\<close>

lemma sha1_rounds_numeral:
  "sha1_rounds f k (numeral m) win (a, b, c, d, e) =
     sha1_rounds f k (pred_numeral m)
       (tl win @ [rotl32 1 (win ! 13 XOR win ! 8 XOR win ! 2 XOR win ! 0)])
       (rotl32 5 a + f b c d + e + k + hd win, a, rotl32 30 b, c, d)"
  by (simp add: numeral_eq_Suc)

lemma loader_name_words:
  "be_words (sha1_pad (ns_uuid @
     [100, 114, 111, 112, 98, 111, 120, 95, 115, 113, 108, 105, 116, 101, 95, 101,
       120, 116, 46, 100, 114, 111, 112, 98, 111, 120, 95, 115, 113, 108, 105, 116,
       101, 95, 101, 120, 116])) =
   [307635872, 2637843179, 3001898864, 3406194124, 1685221232, 1651472479,
       1936813161, 1952800613, 2020879972, 1919905890, 1870159731, 1902930292,
       1700750712, 1954545664, 0, 424]"
  by (simp add: sha1_pad_def ns_uuid_def be64_def numeral_2_eq_2)

lemma loader_name_rounds_first:
  "sha1_rounds sha1_ch 0x5A827999 20
     [307635872, 2637843179, 3001898864, 3406194124, 1685221232, 1651472479,
       1936813161, 1952800613, 2020879972, 1919905890, 1870159731, 1902930292,
       1700750712, 1954545664, 0, 424]
     (1732584193, 4023233417, 2562383102, 271733878, 3285377520) =
   ([1979036118, 579458330, 342207008, 3892264690, 3660986056, 3212843896,
       1009619613, 3185283395, 1582669741, 3561524318, 3795912725, 3793239291,
       1247645840, 681604596, 2954732559, 2825947049],
    (327316214, 3819614156, 3486185150, 2485218824, 692938610))"
  by (simp add: sha1_rounds_numeral rotl32_def sha1_ch_def)

lemma loader_name_rounds_second:
  "sha1_rounds sha1_parity 0x6ED9EBA1 20
     [1979036118, 579458330, 342207008, 3892264690, 3660986056, 3212843896,
       1009619613, 3185283395, 1582669741, 3561524318, 3795912725, 3793239291,
       1247645840, 681604596, 2954732559, 2825947049]
     (327316214, 3819614156, 3486185150, 2485218824, 692938610) =
   ([3691210605, 1149219532, 4135107265, 1002568626, 2906754133, 81730095,
       909282109, 2638242314, 1161335738, 3845887833, 3957145397, 698143141,
       3706437110, 137931885, 2530358969, 1494954718],
    (3989497104, 1473596780, 2224751456, 1255153813, 235615947))"
  by (simp add: sha1_rounds_numeral rotl32_def sha1_parity_def)

lemma loader_name_rounds_third:
  "sha1_rounds sha1_maj 0x8F1BBCDC 20
     [3691210605, 1149219532, 4135107265, 1002568626, 2906754133, 81730095,
       909282109, 2638242314, 1161335738, 3845887833, 3957145397, 698143141,
       3706437110, 137931885, 2530358969, 1494954718]
     (3989497104, 1473596780, 2224751456, 1255153813, 235615947) =
   ([3194935108, 2226341230, 2858913606, 1042030995, 3376568879, 4242419980,
       3047795551, 2954599668, 286448142, 3228754180, 2226373626, 3715379454,
       678564420, 2689832111, 177894452, 1482835079],
    (3288600802, 3224446018, 3376634408, 2697073560, 3993621127))"
  by (simp add: sha1_rounds_numeral rotl32_def sha1_maj_def)

lemma loader_name_rounds_fourth:
  "sha1_rounds sha1_parity 0xCA62C1D6 20
     [3194935108, 2226341230, 2858913606, 1042030995, 3376568879, 4242419980,
       3047795551, 2954599668, 286448142, 3228754180, 2226373626, 3715379454,
       678564420, 2689832111, 177894452, 1482835079]
     (3288600802, 3224446018, 3376634408, 2697073560, 3993621127) =
   ([1747714397, 654129917, 148520530, 2152624212, 4086832285, 3936753765,
       2798521222, 1239893248, 1086652049, 4026909350, 40780866, 4040053680,
       1841999530, 1142377443, 2206857860, 1362728503],
    (4160294482, 1811991517, 4140392768, 1855764747, 3569332045))"
  by (simp add: sha1_rounds_numeral rotl32_def sha1_parity_def)

lemma loader_name_sha1:
  "sha1 (ns_uuid @
     [100, 114, 111, 112, 98, 111, 120, 95, 115, 113, 108, 105, 116, 101, 95, 101,
       120, 116, 46, 100, 114, 111, 112, 98, 111, 120, 95, 115, 113, 108, 105, 116,
       101, 95, 101, 120, 116]) =
   [95, 62, 49, 83, 91, 206, 119, 102, 143, 132, 62, 62, 126, 207, 13, 129, 152,
       146, 145, 61]"
  unfolding sha1_def loader_name_words
  by (simp add: sha1_block_def loader_name_rounds_first loader_name_rounds_second
      loader_name_rounds_third loader_name_rounds_fourth be32_def)

text \<open>
  The identifier of the module's own library is the one in the example names of the
  comment at the head of \<open>_win32_extract\<close>.
\<close>

lemma dll_uuid_loader: "dll_uuid loader_config = ''5f3e3153-5bce-5766-8f84-3e3e7ecf0d81''"
  by (simp add: dll_uuid_def loader_config_def uuid5_def loader_name_sha1 uuid_str_def
      hex_byte_def hex_digit_def Let_def)

lemma ci_eq_refl: "ci_eq a a"
  by (simp add: ci_eq_def)

text \<open>A name that starts with the prefix matches as soon as its end matches the suffix.\<close>

lemma regex_search_prefixed:
  assumes "length suf \<le> length rest"
      and "ci_eq (drop (length rest - length suf) rest) suf"
  shows "regex_search pre suf (pre @ rest) = Some (pre @ take (length rest - length suf) rest)"
  using assms by (simp add: regex_search_def match_end_def ci_eq_refl)

lemma regex_search_generated: "regex_search pre suf (pre @ tok @ suf) = Some (pre @ tok)"
  using regex_search_prefixed [of suf "tok @ suf" pre] by (simp add: ci_eq_refl)

lemma regex_search_other_suffix:
  assumes "length suf \<le> length rest"
      and "\<not> ci_eq (drop (length rest - length suf) rest) suf"
      and "last rest \<noteq> CHR 0x0A"
  shows "regex_search pre suf (pre @ rest) = None"
proof -
  from assms(1,2) have "\<not> match_end pre suf (pre @ rest)"
    by (simp add: match_end_def)
  moreover from assms(1,2) have "rest \<noteq> []"
    by (auto simp: ci_eq_def)
  with assms(3) have "last (pre @ rest) \<noteq> CHR 0x0A"
    by simp
  ultimately show ?thesis
    by (simp add: regex_search_def)
qed

lemma lck_is_no_dll: "\<not> ci_eq ''.lck'' ''.dll''"
  by (simp add: ci_eq_def ascii_lower_def)

lemma lck_to_dll_generated:
  "lck_to_dll cfg (dir, tmp_prefix cfg @ tok @ lck_suffix) = Inr (dir, tmp_prefix cfg @ tok @ dll_suffix cfg)"
  by (simp add: lck_to_dll_def regex_search_generated)

lemma dll_suffix_not_lck: "dll_suffix cfg \<noteq> lck_suffix"
  by (simp add: dll_suffix_def lck_suffix_def)

lemma mkstemp_inner_pos:
  "0 < n \<Longrightarrow> mkstemp_inner n dir pre suf w =
     (let p = (dir, pre @ tokens w (next_token w) @ suf);
          w1 = log (EvOpenExcl p) (w\<lparr>next_token := Suc (next_token w)\<rparr>) in
      case fault w (OpOpenExcl p) of
        Some e \<Rightarrow> (Inl e, w1)
      | None \<Rightarrow>
          if map_of (files w) p \<noteq> None then mkstemp_inner (n - 1) dir pre suf w1
          else (Inr p, w1\<lparr>files := (p, \<lparr>content = [], held = True\<rparr>) # files w1\<rparr>))"
  by (cases n) (auto simp: Let_def split: option.splits)

text \<open>The loop over \<open>range(10)\<close> runs its body once.\<close>

lemma create_pair_once: "create_pair cfg w = create_pair_loop cfg [0] w"
  by (simp add: create_pair_def upt_conv_Cons)

lemmas os_defs =
  log_def gettempdir_def os_path_exists_def os_listdir_def os_unlink_def
  NamedTemporaryFile_def CreateFileW_new_def CreateFileW_existing_def copyfileobj_def
  file_close_def LoadLibrary_def FreeLibrary_def unhandled_exc_handler_def
  report_bad_assumption_def fs_remove_def fs_update_def

lemmas extract_defs =
  win32_extract_def delete_old_files_def scan_body_def scan_entry_def delete_dll_def
  dll_to_lck_def create_and_test_def create_pair_once sanity_check_def write_dll_def
  test_load_def can_read_and_execute_def

lemmas winerror_defs =
  ERROR_FILE_NOT_FOUND_def ERROR_ACCESS_DENIED_def ERROR_SHARING_VIOLATION_def
  ERROR_FILE_EXISTS_def ERROR_MOD_NOT_FOUND_def

lemma loader_config_simps:
  "package_name loader_config = ''dropbox_sqlite_ext''"
  "dll_name loader_config = ''dropbox_sqlite_ext''"
  "platform loader_config = ''win32''"
  "resource_filename loader_config = Inl NotImplementedError"
  "resource_stream loader_config = Inr ''MZ-payload''"
  "TMP_MAX loader_config = 10000"
  "dll_suffix loader_config = ''.dll''"
  by (simp_all add: loader_config_def dll_suffix_def)

lemma ci_eq_suffixes: "ci_eq ''.dll'' ''.dll''" "ci_eq ''.lck'' ''.lck''"
  by (simp_all add: ci_eq_refl)

lemma extract_empty_world:
  "win32_extract loader_config init empty_world = (Inr (), extracted_loader, extracted_world)"
  by (simp add: extract_defs os_defs winerror_defs loader_config_simps mkstemp_inner_pos
      regex_search_prefixed ci_eq_suffixes lck_to_dll_def lck_suffix_def empty_world_def
      sample_tokens_def init_def extracted_loader_def extracted_world_def sample_lock_def
      sample_dll_def Let_def)

section \<open>Errors of the cleanup pass stay inside it\<close>




section \<open>The cached path\<close>

text \<open>
  C3. On the extraction path (\<open>resource_filename\<close> raises \<open>NotImplementedError\<close>), once a
  call of \<open>dll_filename\<close> has returned, every later call returns the same path and leaves
  the loader and the world as they are: no call reaches the operating system (the trace
  is the same) and no file is created (the files are the same).
\<close>

theorem cached_path_returned:
  assumes "resource_filename cfg = Inl NotImplementedError"
      and "dll_filename cfg self w = (Inr r, self', w')"
  shows "\<exists>p. r = Some p \<and> (\<forall>w2. dll_filename cfg self' w2 = (Inr (Some p), self', w2))"
proof (cases "extracted_filename self")
  case (Some p)
  with assms have "self' = self" and "r = Some p"
    by (simp_all add: dll_filename_def)
  with Some assms(1) show ?thesis by (simp add: dll_filename_def)
next
  case None
  with assms obtain u where ex: "win32_extract cfg self w = (Inr u, self', w')"
    and r: "r = extracted_filename self'"
    by (auto simp: dll_filename_def split: if_splits prod.splits sum.splits)
  from ex obtain d where "extracted_filename self' = Some d"
    by (auto simp: win32_extract_def create_and_test_def split: prod.splits sum.splits)
  with assms(1) r show ?thesis by (auto simp: dll_filename_def)
qed

theorem cached_path_returned_witness:
  "resource_filename loader_config = Inl NotImplementedError
   \<and> dll_filename loader_config init empty_world
       = (Inr (Some sample_dll), extracted_loader, extracted_world)
   \<and> dll_filename loader_config extracted_loader extracted_world
       = (Inr (Some sample_dll), extracted_loader, extracted_world)"
proof -
  have path: "resource_filename loader_config = Inl NotImplementedError"
    by (simp add: loader_config_simps)
  have first: "dll_filename loader_config init empty_world
       = (Inr (Some sample_dll), extracted_loader, extracted_world)"
    by (simp add: dll_filename_def loader_config_simps init_def [symmetric] extract_empty_world)
       (simp add: init_def extracted_loader_def)
  from cached_path_returned [OF path first] path first show ?thesis by auto
qed

section \<open>A failed extraction is not remembered\<close>

text \<open>
  C10. When \<open>_win32_extract\<close> raises, the loader object is as it was before the call: both
  \<open>_extracted_filename\<close> and \<open>_extracted_lockfile\<close> keep their values. So on the extraction
  path, with nothing cached before, \<open>dll_filename\<close> raises the same error and the next call
  of \<open>dll_filename\<close>, in whatever world, runs \<open>_win32_extract\<close> again.
\<close>

theorem failed_extraction_not_cached:
  assumes "win32_extract cfg self w = (Inl e, self', w')"
  shows "self' = self
    \<and> (resource_filename cfg = Inl NotImplementedError \<longrightarrow> take 3 (platform cfg) = ''win''
         \<longrightarrow> extracted_filename self = None
         \<longrightarrow> dll_filename cfg self w = (Inl e, self, w')
           \<and> (\<forall>w2. dll_filename cfg self' w2 =
                 (case win32_extract cfg self w2 of
                    (Inl e2, s, w3) \<Rightarrow> (Inl e2, s, w3)
                  | (Inr u, s, w3) \<Rightarrow> (Inr (extracted_filename s), s, w3))))"
proof -
  from assms have same: "self' = self"
    by (auto simp: win32_extract_def create_and_test_def split: prod.splits sum.splits)
  with assms show ?thesis by (simp add: dll_filename_def)
qed

lemma extract_denied_world:
  "fst (win32_extract loader_config init denied_world) = Inl (BrokenTempDirError ''Temp'')"
  by (simp add: extract_defs os_defs winerror_defs loader_config_simps mkstemp_inner_pos
      regex_search_prefixed ci_eq_suffixes lck_to_dll_def lck_suffix_def denied_world_def
      empty_world_def sample_tokens_def init_def sample_lock_def sample_dll_def Let_def)

theorem failed_extraction_not_cached_witness:
  "fst (win32_extract loader_config init denied_world) = Inl (BrokenTempDirError ''Temp'')
   \<and> fst (snd (win32_extract loader_config init denied_world)) = init
   \<and> fst (dll_filename loader_config init denied_world) = Inl (BrokenTempDirError ''Temp'')
   \<and> dll_filename loader_config (fst (snd (win32_extract loader_config init denied_world)))
        empty_world
      = (Inr (Some sample_dll), extracted_loader, extracted_world)"
proof -
  obtain s' w' where run:
    "win32_extract loader_config init denied_world = (Inl (BrokenTempDirError ''Temp''), s', w')"
    using extract_denied_world
    by (cases "win32_extract loader_config init denied_world") auto
  have none: "extracted_filename init = None"
    by (simp add: init_def)
  from failed_extraction_not_cached [OF run] none
  have all: "s' = init
    \<and> dll_filename loader_config init denied_world = (Inl (BrokenTempDirError ''Temp''), init, w')
    \<and> (\<forall>w2. dll_filename loader_config s' w2 =
          (case win32_extract loader_config init w2 of
             (Inl e2, s, w3) \<Rightarrow> (Inl e2, s, w3)
           | (Inr u, s, w3) \<Rightarrow> (Inr (extracted_filename s), s, w3)))"
    by (auto simp: loader_config_simps)
  then have "s' = init"
    and "dll_filename loader_config init denied_world = (Inl (BrokenTempDirError ''Temp''), init, w')"
    and "dll_filename loader_config s' empty_world =
          (case win32_extract loader_config init empty_world of
             (Inl e2, s, w3) \<Rightarrow> (Inl e2, s, w3)
           | (Inr u, s, w3) \<Rightarrow> (Inr (extracted_filename s), s, w3))"
    by blast+
  with run show ?thesis
    by (simp add: extract_empty_world extracted_loader_def)
qed

section \<open>Testing that the library loads\<close>

lemma test_load_loaded:
  assumes "LoadLibrary d w = (Inr h, w1)"
  shows "test_load d w = (Inr (), FreeLibrary h w1)"
    and "loaded (FreeLibrary h w1) = loaded w"
    and "new_events w (FreeLibrary h w1) = [EvLoadLibrary d (map_of (files w) d), EvFreeLibrary d]"
  using assms
  by (auto simp: test_load_def LoadLibrary_def FreeLibrary_def log_def new_events_def Let_def
      split: option.splits)

text \<open>
  C5, as the code has it. (1) When the library loads, it is freed at once, the test ends
  normally, and the process holds no more loaded libraries than before. (2) When the load
  is refused with access denied and \<open>can_read_and_execute\<close> says no, the error is
  \<open>BrokenTempDirError\<close> with the directory of the library. (3) When the load is refused
  with access denied and \<open>can_read_and_execute\<close> itself raises, that second error is what
  the caller gets. (4) In every other case the loader's error is raised as it came.
\<close>

theorem test_load_outcomes:
  "(\<forall>h w1. LoadLibrary d w = (Inr h, w1) \<longrightarrow>
       test_load d w = (Inr (), FreeLibrary h w1)
       \<and> loaded (FreeLibrary h w1) = loaded w
       \<and> new_events w (FreeLibrary h w1)
           = [EvLoadLibrary d (map_of (files w) d), EvFreeLibrary d])
   \<and> (\<forall>w1 w2. LoadLibrary d w = (Inl (Win32Error ERROR_ACCESS_DENIED), w1)
         \<and> can_read_and_execute d w1 = (Inr False, w2) \<longrightarrow>
       test_load d w = (Inl (BrokenTempDirError (fst d)), w2))
   \<and> (\<forall>w1 w2 e2. LoadLibrary d w = (Inl (Win32Error ERROR_ACCESS_DENIED), w1)
         \<and> can_read_and_execute d w1 = (Inl e2, w2) \<longrightarrow>
       test_load d w = (Inl e2, w2))
   \<and> (\<forall>e w1. LoadLibrary d w = (Inl e, w1)
         \<and> (e \<noteq> Win32Error ERROR_ACCESS_DENIED \<or> fst (can_read_and_execute d w1) = Inr True) \<longrightarrow>
       fst (test_load d w) = Inl e)"
proof (intro conjI allI impI)
  fix h w1 assume "LoadLibrary d w = (Inr h, w1)"
  from test_load_loaded [OF this]
  show "test_load d w = (Inr (), FreeLibrary h w1)"
    and "loaded (FreeLibrary h w1) = loaded w"
    and "new_events w (FreeLibrary h w1)
           = [EvLoadLibrary d (map_of (files w) d), EvFreeLibrary d]"
    by simp_all
next
  fix w1 w2
  assume "LoadLibrary d w = (Inl (Win32Error ERROR_ACCESS_DENIED), w1)
         \<and> can_read_and_execute d w1 = (Inr False, w2)"
  then show "test_load d w = (Inl (BrokenTempDirError (fst d)), w2)"
    by (simp add: test_load_def)
next
  fix w1 w2 e2
  assume "LoadLibrary d w = (Inl (Win32Error ERROR_ACCESS_DENIED), w1)
         \<and> can_read_and_execute d w1 = (Inl e2, w2)"
  then show "test_load d w = (Inl e2, w2)"
    by (simp add: test_load_def)
next
  fix e w1
  assume "LoadLibrary d w = (Inl e, w1)
         \<and> (e \<noteq> Win32Error ERROR_ACCESS_DENIED \<or> fst (can_read_and_execute d w1) = Inr True)"
  then show "fst (test_load d w) = Inl e"
    by (cases e; cases "can_read_and_execute d w1")
       (auto simp: test_load_def split: sum.splits bool.splits)
qed

lemmas sample_defs =
  empty_world_def extracted_world_def sample_tokens_def sample_lock_def sample_dll_def

theorem test_load_outcomes_witness:
  "fst (test_load sample_dll extracted_world) = Inr ()
   \<and> loaded (snd (test_load sample_dll extracted_world)) = loaded extracted_world
   \<and> fst (test_load sample_dll stripped_world) = Inl (BrokenTempDirError ''Temp'')
   \<and> fst (test_load sample_dll scanned_world) = Inl (Win32Error ERROR_SHARING_VIOLATION)
   \<and> fst (test_load sample_dll garbled_world) = Inl (Win32Error 193)"
proof -
  have "fst (LoadLibrary sample_dll extracted_world) = Inr sample_dll"
    by (simp add: LoadLibrary_def log_def sample_defs Let_def)
  then obtain w1 where "LoadLibrary sample_dll extracted_world = (Inr sample_dll, w1)"
    by (cases "LoadLibrary sample_dll extracted_world") auto
  from test_load_outcomes [of sample_dll extracted_world, THEN conjunct1, rule_format, OF this]
  have loads: "fst (test_load sample_dll extracted_world) = Inr ()"
    "loaded (snd (test_load sample_dll extracted_world)) = loaded extracted_world"
    by simp_all
  have "fst (LoadLibrary sample_dll stripped_world) = Inl (Win32Error ERROR_ACCESS_DENIED)"
    by (simp add: LoadLibrary_def log_def stripped_world_def denied_world_def sample_defs Let_def)
  then obtain w2 where
    refused: "LoadLibrary sample_dll stripped_world = (Inl (Win32Error ERROR_ACCESS_DENIED), w2)"
    by (cases "LoadLibrary sample_dll stripped_world") auto
  then have "fst (can_read_and_execute sample_dll w2) = Inr False"
    by (auto simp: can_read_and_execute_def CreateFileW_existing_def LoadLibrary_def log_def
        stripped_world_def denied_world_def sample_defs Let_def)
  then obtain w3 where "can_read_and_execute sample_dll w2 = (Inr False, w3)"
    by (cases "can_read_and_execute sample_dll w2") auto
  with refused test_load_outcomes [of sample_dll stripped_world]
  have broken: "fst (test_load sample_dll stripped_world) = Inl (BrokenTempDirError ''Temp'')"
    by (simp add: sample_dll_def)
  have "fst (LoadLibrary sample_dll scanned_world) = Inl (Win32Error ERROR_ACCESS_DENIED)"
    by (simp add: LoadLibrary_def log_def scanned_world_def sample_defs Let_def)
  then obtain w4 where
    refused': "LoadLibrary sample_dll scanned_world = (Inl (Win32Error ERROR_ACCESS_DENIED), w4)"
    by (cases "LoadLibrary sample_dll scanned_world") auto
  then have "fst (can_read_and_execute sample_dll w4) = Inl (Win32Error ERROR_SHARING_VIOLATION)"
    by (auto simp: can_read_and_execute_def CreateFileW_existing_def LoadLibrary_def log_def
        scanned_world_def sample_defs winerror_defs Let_def)
  then obtain w5 where
    "can_read_and_execute sample_dll w4 = (Inl (Win32Error ERROR_SHARING_VIOLATION), w5)"
    by (cases "can_read_and_execute sample_dll w4") auto
  with refused' test_load_outcomes [of sample_dll scanned_world]
  have second: "fst (test_load sample_dll scanned_world) = Inl (Win32Error ERROR_SHARING_VIOLATION)"
    by simp
  have "fst (LoadLibrary sample_dll garbled_world) = Inl (Win32Error 193)"
    by (simp add: LoadLibrary_def log_def garbled_world_def sample_defs Let_def)
  then obtain w6 where
    garbled: "LoadLibrary sample_dll garbled_world = (Inl (Win32Error 193), w6)"
    by (cases "LoadLibrary sample_dll garbled_world") auto
  have "Win32Error 193 \<noteq> Win32Error ERROR_ACCESS_DENIED"
    by (simp add: ERROR_ACCESS_DENIED_def)
  with garbled test_load_outcomes [of sample_dll garbled_world]
  have other: "fst (test_load sample_dll garbled_world) = Inl (Win32Error 193)"
    by blast
  from loads broken second other show ?thesis by simp
qed

text \<open>
  C5 as the specification states it fails in its last part. In \<open>scanned_world\<close> the load
  is refused with access denied, \<open>can_read_and_execute\<close> does not say that permission is
  missing (its own open fails with a sharing violation, which it raises), and what
  \<open>test_load\<close> raises is that sharing violation, not the loader's error.
\<close>

theorem test_load_counterexample:
  "fst (LoadLibrary sample_dll scanned_world) = Inl (Win32Error ERROR_ACCESS_DENIED)
   \<and> fst (can_read_and_execute sample_dll (snd (LoadLibrary sample_dll scanned_world)))
       = Inl (Win32Error ERROR_SHARING_VIOLATION)
   \<and> fst (test_load sample_dll scanned_world) = Inl (Win32Error ERROR_SHARING_VIOLATION)
   \<and> fst (test_load sample_dll scanned_world) \<noteq> Inl (Win32Error ERROR_ACCESS_DENIED)"
  by (simp add: test_load_def can_read_and_execute_def CreateFileW_existing_def LoadLibrary_def
      log_def scanned_world_def sample_defs winerror_defs Let_def)

section \<open>One candidate of the cleanup pass\<close>

lemma map_of_fs_remove: "map_of (fs_remove p fs) p = None"
  by (induction fs) (auto simp: fs_remove_def)

lemma os_unlink_trace: "os_unlink p w = (r, w1) \<Longrightarrow> trace w1 = trace w @ [EvUnlink p]"
  by (auto simp: os_unlink_def log_def Let_def split: option.splits if_splits)

lemma os_unlink_gone: "os_unlink p w = (Inr u, w1) \<Longrightarrow> \<not> os_path_exists p w1"
  by (auto simp: os_unlink_def log_def os_path_exists_def map_of_fs_remove Let_def
      split: option.splits if_splits)

lemma os_unlink_sharing_files:
  "os_unlink p w = (Inl e, w1) \<Longrightarrow> files w1 = files w"
  by (auto simp: os_unlink_def log_def Let_def split: option.splits if_splits)

lemma delete_dll_trace:
  "delete_dll p w1 = (r, w2) \<Longrightarrow> \<exists>rest. trace w2 = trace w1 @ EvUnlink p # rest"
  by (auto simp: delete_dll_def unhandled_exc_handler_def log_def
      dest!: os_unlink_trace split: prod.splits sum.splits exn.splits if_splits)

lemma delete_dll_done:
  "os_unlink p w1 = (Inr u, w2) \<Longrightarrow> delete_dll p w1 = (Inr (), w2)"
  by (simp add: delete_dll_def)

text \<open>
  One pass of the loop body for an entry that matches the pattern of the library files.
  The paired lock file is the entry's name with the library suffix replaced by \<open>.lck\<close>.
  When deleting the lock file succeeds or fails with \<open>ERROR_FILE_NOT_FOUND\<close>, the pass goes
  on to delete the library file (the next call is \<open>os.unlink\<close> on it, and when that call
  succeeds the library file is gone); when deleting the lock file fails with
  \<open>ERROR_SHARING_VIOLATION\<close>, the pass is over for this entry after that one call, with all
  files as they were.
\<close>

lemma scan_entry_cases:
  assumes "regex_search (tmp_prefix cfg) (dll_suffix cfg) basename = Some g"
  shows "dll_to_lck cfg (dir, basename) = Inr (dir, g @ lck_suffix)
    \<and> (\<forall>w1. os_unlink (dir, g @ lck_suffix) w = (Inr (), w1)
             \<or> os_unlink (dir, g @ lck_suffix) w = (Inl (WindowsError ERROR_FILE_NOT_FOUND), w1)
          \<longrightarrow> scan_entry cfg dir basename w = delete_dll (dir, basename) w1
            \<and> (\<exists>rest. new_events w (snd (scan_entry cfg dir basename w))
                  = EvUnlink (dir, g @ lck_suffix) # EvUnlink (dir, basename) # rest)
            \<and> (\<forall>w2. os_unlink (dir, basename) w1 = (Inr (), w2)
                  \<longrightarrow> scan_entry cfg dir basename w = (Inr (), w2)
                    \<and> \<not> os_path_exists (dir, basename) w2))
    \<and> (\<forall>w1. os_unlink (dir, g @ lck_suffix) w
               = (Inl (WindowsError ERROR_SHARING_VIOLATION), w1)
          \<longrightarrow> scan_entry cfg dir basename w = (Inr (), w1)
            \<and> files w1 = files w
            \<and> new_events w w1 = [EvUnlink (dir, g @ lck_suffix)])"
proof (intro conjI allI impI)
  show lck: "dll_to_lck cfg (dir, basename) = Inr (dir, g @ lck_suffix)"
    using assms by (simp add: dll_to_lck_def)
  {
    fix w1
    assume first: "os_unlink (dir, g @ lck_suffix) w = (Inr (), w1)
             \<or> os_unlink (dir, g @ lck_suffix) w = (Inl (WindowsError ERROR_FILE_NOT_FOUND), w1)"
    then show goes_on: "scan_entry cfg dir basename w = delete_dll (dir, basename) w1"
      using assms lck by (auto simp: scan_entry_def)
    from first have t1: "trace w1 = trace w @ [EvUnlink (dir, g @ lck_suffix)]"
      by (auto dest: os_unlink_trace)
    obtain r w2 where d: "delete_dll (dir, basename) w1 = (r, w2)"
      by (cases "delete_dll (dir, basename) w1")
    from delete_dll_trace [OF d] obtain rest where
      "trace w2 = trace w1 @ EvUnlink (dir, basename) # rest" ..
    with t1 goes_on d
    show "\<exists>rest. new_events w (snd (scan_entry cfg dir basename w))
                  = EvUnlink (dir, g @ lck_suffix) # EvUnlink (dir, basename) # rest"
      by (simp add: new_events_def)
    fix w2'
    assume second: "os_unlink (dir, basename) w1 = (Inr (), w2')"
    with goes_on show "scan_entry cfg dir basename w = (Inr (), w2')"
      by (simp add: delete_dll_done)
    from second show "\<not> os_path_exists (dir, basename) w2'"
      by (rule os_unlink_gone)
  }
  {
    fix w1
    assume held: "os_unlink (dir, g @ lck_suffix) w
               = (Inl (WindowsError ERROR_SHARING_VIOLATION), w1)"
    then show "scan_entry cfg dir basename w = (Inr (), w1)"
      using assms lck by (simp add: scan_entry_def winerror_defs)
    from held show "files w1 = files w"
      by (rule os_unlink_sharing_files)
    from held show "new_events w w1 = [EvUnlink (dir, g @ lck_suffix)]"
      by (simp add: new_events_def os_unlink_trace)
  }
qed

lemma old_dll_matches:
  "regex_search (tmp_prefix loader_config) (dll_suffix loader_config) (snd old_dll)
     = Some (tmp_prefix loader_config @ ''0ldrun'')"
  by (simp add: old_dll_def loader_config_simps regex_search_prefixed ci_eq_suffixes)

section \<open>What each step of \<open>_win32_extract\<close> adds to the trace\<close>

lemma map_of_fs_remove_other: "d \<noteq> p \<Longrightarrow> map_of (fs_remove p fs) d = map_of fs d"
  by (induction fs) (auto simp: fs_remove_def)

lemma map_of_fs_update: "map_of (fs_update p g fs) p = map_option g (map_of fs p)"
  by (induction fs) (auto simp: fs_update_def)

lemma delete_dll_quiet:
  assumes "delete_dll p w = (r, w1)"
  shows "\<exists>evs. trace w1 = trace w @ evs \<and> list_all quiet evs"
proof -
  obtain r0 w0 where u: "os_unlink p w = (r0, w0)"
    by (cases "os_unlink p w")
  then have t0: "trace w0 = trace w @ [EvUnlink p]"
    by (rule os_unlink_trace)
  from assms u have "w1 = w0 \<or> (\<exists>e. w1 = unhandled_exc_handler e w0)"
    by (auto simp: delete_dll_def split: sum.splits exn.splits if_splits)
  with t0 show ?thesis
    by (auto simp: unhandled_exc_handler_def log_def quiet_def)
qed

lemma scan_entry_quiet:
  assumes "scan_entry cfg dir b w = (r, w1)"
  shows "\<exists>evs. trace w1 = trace w @ evs \<and> list_all quiet evs"
proof (cases "regex_search (tmp_prefix cfg) (dll_suffix cfg) b")
  case None
  with assms show ?thesis by (simp add: scan_entry_def)
next
  case (Some g)
  then have lck: "dll_to_lck cfg (dir, b) = Inr (dir, g @ lck_suffix)"
    by (simp add: dll_to_lck_def)
  obtain r0 w0 where u: "os_unlink (dir, g @ lck_suffix) w = (r0, w0)"
    by (cases "os_unlink (dir, g @ lck_suffix) w")
  then have t0: "trace w0 = trace w @ [EvUnlink (dir, g @ lck_suffix)]"
    by (rule os_unlink_trace)
  from assms Some lck u
  have "delete_dll (dir, b) w0 = (r, w1) \<or> w1 = w0 \<or> (\<exists>e. w1 = unhandled_exc_handler e w0)"
    by (auto simp: scan_entry_def split: sum.splits exn.splits if_splits)
  then show ?thesis
  proof (elim disjE exE)
    assume "delete_dll (dir, b) w0 = (r, w1)"
    from delete_dll_quiet [OF this] t0 show ?thesis
      by (auto simp: quiet_def)
  next
    assume "w1 = w0"
    with t0 show ?thesis by (simp add: quiet_def)
  next
    fix e assume "w1 = unhandled_exc_handler e w0"
    with t0 show ?thesis by (simp add: unhandled_exc_handler_def log_def quiet_def)
  qed
qed

lemma scan_loop_quiet:
  "scan_loop cfg dir names w = (r, w1) \<Longrightarrow> \<exists>evs. trace w1 = trace w @ evs \<and> list_all quiet evs"
proof (induction names arbitrary: w)
  case Nil
  then show ?case by simp
next
  case (Cons b names)
  obtain r0 w0 where e: "scan_entry cfg dir b w = (r0, w0)"
    by (cases "scan_entry cfg dir b w")
  from scan_entry_quiet [OF e] obtain evs0 where
    t0: "trace w0 = trace w @ evs0" and q0: "list_all quiet evs0" by blast
  show ?case
  proof (cases r0)
    case (Inl x)
    with Cons.prems e t0 q0 show ?thesis by auto
  next
    case (Inr u)
    with Cons.prems e have "scan_loop cfg dir names w0 = (r, w1)" by simp
    from Cons.IH [OF this] obtain evs1 where
      "trace w1 = trace w0 @ evs1" and "list_all quiet evs1" by blast
    with t0 q0 have "trace w1 = trace w @ (evs0 @ evs1) \<and> list_all quiet (evs0 @ evs1)"
      by simp
    then show ?thesis by blast
  qed
qed

lemma delete_old_files_quiet:
  assumes "delete_old_files cfg dir w = (r, w1)"
  shows "\<exists>evs. trace w1 = trace w @ evs \<and> list_all quiet evs"
proof -
  obtain r0 w0 where b: "scan_body cfg dir w = (r0, w0)"
    by (cases "scan_body cfg dir w")
  have "\<exists>evs. trace w0 = trace w @ evs \<and> list_all quiet evs"
  proof (cases "fault w (OpListdir dir)")
    case (Some e)
    with b show ?thesis
      by (auto simp: scan_body_def os_listdir_def log_def quiet_def Let_def)
  next
    case None
    with b obtain names where
      "scan_loop cfg dir names (log (EvListdir dir) w) = (r0, w0)"
      by (auto simp: scan_body_def os_listdir_def Let_def)
    from scan_loop_quiet [OF this] obtain evs where
      "trace w0 = trace (log (EvListdir dir) w) @ evs" and "list_all quiet evs" by blast
    then have "trace w0 = trace w @ (EvListdir dir # evs) \<and> list_all quiet (EvListdir dir # evs)"
      by (simp add: log_def quiet_def)
    then show ?thesis by blast
  qed
  then obtain evs where t0: "trace w0 = trace w @ evs" and q0: "list_all quiet evs" by blast
  from assms b have "w1 = w0 \<or> (\<exists>e. w1 = unhandled_exc_handler e w0)"
    by (auto simp: delete_old_files_def split: sum.splits)
  with t0 q0 show ?thesis
    by (auto simp: unhandled_exc_handler_def log_def quiet_def)
qed

lemma mkstemp_inner_result:
  "mkstemp_inner n dir pre suf w = (r, w1) \<Longrightarrow>
     \<exists>evs. trace w1 = trace w @ evs \<and> list_all quiet evs
       \<and> (\<forall>p. r = Inr p \<longrightarrow> (\<exists>tok. p = (dir, pre @ tok @ suf)))"
proof (induction n arbitrary: w)
  case 0
  then show ?case by auto
next
  case (Suc n)
  let ?p = "(dir, pre @ tokens w (next_token w) @ suf)"
  let ?w = "log (EvOpenExcl ?p) (w\<lparr>next_token := Suc (next_token w)\<rparr>)"
  have t: "trace ?w = trace w @ [EvOpenExcl ?p]"
    by (simp add: log_def)
  from Suc.prems
  have "(\<exists>e. r = Inl e \<and> w1 = ?w) \<or> mkstemp_inner n dir pre suf ?w = (r, w1)
        \<or> (r = Inr ?p \<and> trace w1 = trace ?w)"
    by (auto simp: Let_def log_def split: option.splits if_splits)
  then show ?case
  proof (elim disjE)
    assume "\<exists>e. r = Inl e \<and> w1 = ?w"
    with t show ?thesis by (auto simp: quiet_def)
  next
    assume "mkstemp_inner n dir pre suf ?w = (r, w1)"
    from Suc.IH [OF this] obtain evs where
      "trace w1 = trace ?w @ evs" and "list_all quiet evs"
      and "\<forall>p. r = Inr p \<longrightarrow> (\<exists>tok. p = (dir, pre @ tok @ suf))" by blast
    with t have "trace w1 = trace w @ (EvOpenExcl ?p # evs) \<and> list_all quiet (EvOpenExcl ?p # evs)
       \<and> (\<forall>p. r = Inr p \<longrightarrow> (\<exists>tok. p = (dir, pre @ tok @ suf)))"
      by (simp add: quiet_def)
    then show ?thesis by blast
  next
    assume "r = Inr ?p \<and> trace w1 = trace ?w"
    with t show ?thesis by (auto simp: quiet_def)
  qed
qed

lemma create_pair_failed:
  assumes "create_pair cfg w = (Inl e, w2)"
  shows "\<exists>evs. trace w2 = trace w @ evs \<and> list_all quiet evs"
proof -
  obtain r1 w1 where m: "mkstemp_inner (TMP_MAX cfg) (gettempdir w) (tmp_prefix cfg) lck_suffix w = (r1, w1)"
    by (cases "mkstemp_inner (TMP_MAX cfg) (gettempdir w) (tmp_prefix cfg) lck_suffix w")
  from mkstemp_inner_result [OF m] obtain evs where
    t1: "trace w1 = trace w @ evs" and q1: "list_all quiet evs" by blast
  from assms m have "w2 = w1 \<or> (\<exists>d. w2 = log (EvCreateNew d) w1)"
    by (auto simp: create_pair_once NamedTemporaryFile_def CreateFileW_new_def Let_def
        split: sum.splits prod.splits option.splits if_splits)
  with t1 q1 show ?thesis
    by (auto simp: log_def quiet_def)
qed

lemma create_pair_result:
  assumes "create_pair cfg w = (Inr (l, d), w2)"
  shows "\<exists>tok evs. l = (gettempdir w, tmp_prefix cfg @ tok @ lck_suffix)
      \<and> d = (gettempdir w, tmp_prefix cfg @ tok @ dll_suffix cfg)
      \<and> trace w2 = trace w @ evs @ [EvCreateNew d] \<and> list_all quiet evs
      \<and> map_of (files w2) d = Some \<lparr>content = [], held = True\<rparr>"
proof -
  obtain r1 w1 where m: "mkstemp_inner (TMP_MAX cfg) (gettempdir w) (tmp_prefix cfg) lck_suffix w = (r1, w1)"
    by (cases "mkstemp_inner (TMP_MAX cfg) (gettempdir w) (tmp_prefix cfg) lck_suffix w")
  from assms m have r1: "r1 = Inr l"
    by (auto simp: create_pair_once NamedTemporaryFile_def split: sum.splits prod.splits)
  from mkstemp_inner_result [OF m] r1 obtain evs tok where
    t1: "trace w1 = trace w @ evs" and q1: "list_all quiet evs"
    and l: "l = (gettempdir w, tmp_prefix cfg @ tok @ lck_suffix)" by blast
  from assms m r1 l have d: "d = (gettempdir w, tmp_prefix cfg @ tok @ dll_suffix cfg)"
    and c: "CreateFileW_new d w1 = (Inr (), w2)"
    by (auto simp: create_pair_once NamedTemporaryFile_def lck_to_dll_generated
        split: sum.splits prod.splits)
  from c have "trace w2 = trace w1 @ [EvCreateNew d]"
    and "map_of (files w2) d = Some \<lparr>content = [], held = True\<rparr>"
    by (auto simp: CreateFileW_new_def log_def Let_def split: option.splits if_splits)
  with t1 q1 l d show ?thesis by auto
qed

lemma sanity_check_files:
  assumes "sanity_check l w = (r, w3)" and "d \<noteq> l"
  shows "map_of (files w3) d = map_of (files w) d"
proof -
  obtain r0 w0 where u: "os_unlink l w = (r0, w0)"
    by (cases "os_unlink l w")
  with assms(2) have "map_of (files w0) d = map_of (files w) d"
    by (auto simp: os_unlink_def log_def map_of_fs_remove_other Let_def
        split: option.splits if_splits)
  moreover from assms(1) u have "files w3 = files w0"
    by (auto simp: sanity_check_def unhandled_exc_handler_def report_bad_assumption_def
        log_def Let_def split: sum.splits exn.splits if_splits)
  ultimately show ?thesis by simp
qed

lemma sanity_check_result:
  assumes "sanity_check l w = (r, w3)"
  shows "\<exists>evs. trace w3 = trace w @ EvUnlink l # evs \<and> list_all quiet evs"
proof -
  obtain r0 w0 where u: "os_unlink l w = (r0, w0)"
    by (cases "os_unlink l w")
  then have t0: "trace w0 = trace w @ [EvUnlink l]"
    by (rule os_unlink_trace)
  from assms u have "\<exists>evs. trace w3 = trace w0 @ evs \<and> list_all quiet evs"
    by (auto simp: sanity_check_def unhandled_exc_handler_def report_bad_assumption_def
        log_def quiet_def Let_def split: sum.splits exn.splits if_splits)
  with t0 show ?thesis by auto
qed

lemma write_dll_done:
  assumes "write_dll cfg d w = (Inr u, w4)"
  shows "\<exists>payload. resource_stream cfg = Inr payload
      \<and> trace w4 = trace w @ [EvCopy d, EvClose d]
      \<and> map_of (files w4) d
          = map_option (\<lambda>f. f\<lparr>content := payload, held := False\<rparr>) (map_of (files w) d)"
  using assms
  by (auto simp: write_dll_def copyfileobj_def file_close_def log_def Let_def
      map_of_fs_update option.map_comp comp_def
      split: sum.splits prod.splits option.splits)

lemma write_dll_failed:
  assumes "write_dll cfg d w = (Inl e, w4)"
  shows "trace w4 = trace w \<or> trace w4 = trace w @ [EvCopy d]
      \<or> trace w4 = trace w @ [EvCopy d, EvClose d]"
  using assms
  by (auto simp: write_dll_def copyfileobj_def file_close_def log_def Let_def
      split: sum.splits prod.splits option.splits)

lemma test_load_events:
  assumes "test_load d w = (r, w5)"
  shows "\<exists>tail. trace w5 = trace w @ EvLoadLibrary d (map_of (files w) d) # tail
      \<and> (tail = [] \<or> tail = [EvFreeLibrary d] \<or> tail = [EvOpenExisting d])"
  using assms
  by (auto simp: test_load_def LoadLibrary_def FreeLibrary_def can_read_and_execute_def
      CreateFileW_existing_def log_def Let_def
      split: sum.splits prod.splits option.splits exn.splits if_splits bool.splits)

lemma test_load_files: "test_load d w = (r, w5) \<Longrightarrow> files w5 = files w"
  by (auto simp: test_load_def LoadLibrary_def FreeLibrary_def can_read_and_execute_def
      CreateFileW_existing_def log_def Let_def
      split: sum.splits prod.splits option.splits exn.splits if_splits bool.splits)

text \<open>
  After a call that returns normally, the file whose path the loader object stores holds
  the whole payload and no handle is open on it.
\<close>

lemma extracted_file_complete:
  assumes "win32_extract cfg self w = (Inr u, self', w')"
  shows "\<exists>d payload. extracted_filename self' = Some d \<and> resource_stream cfg = Inr payload
      \<and> map_of (files w') d = Some \<lparr>content = payload, held = False\<rparr>"
proof -
  from assms obtain w1 l d w2 w3 w4 u3 u4 u5 where
    cp: "create_pair cfg w1 = (Inr (l, d), w2)"
    and sc: "sanity_check l w2 = (Inr u3, w3)"
    and wr: "write_dll cfg d w3 = (Inr u4, w4)"
    and tl: "test_load d w4 = (Inr u5, w')"
    and field: "extracted_filename self' = Some d"
    by (auto simp: win32_extract_def create_and_test_def split: prod.splits sum.splits)
  from create_pair_result [OF cp] obtain tok where
    l: "l = (gettempdir w1, tmp_prefix cfg @ tok @ lck_suffix)"
    and d: "d = (gettempdir w1, tmp_prefix cfg @ tok @ dll_suffix cfg)"
    and f2: "map_of (files w2) d = Some \<lparr>content = [], held = True\<rparr>"
    by blast
  from l d have "d \<noteq> l"
    using dll_suffix_not_lck [of cfg] by simp
  from sanity_check_files [OF sc this] f2
  have f3: "map_of (files w3) d = Some \<lparr>content = [], held = True\<rparr>"
    by simp
  from write_dll_done [OF wr] f3 obtain payload where
    stream: "resource_stream cfg = Inr payload"
    and f4: "map_of (files w4) d = Some \<lparr>content = payload, held = False\<rparr>"
    by fastforce
  from test_load_files [OF tl] f4
  have "map_of (files w') d = Some \<lparr>content = payload, held = False\<rparr>"
    by simp
  with field stream show ?thesis by blast
qed

text \<open>
  The events of one call of \<open>_win32_extract\<close>: either quiet ones only, when the call ends
  before anything is written, or the quiet events up to the creation of the pair, the
  sanity check with what it reports, and then the copy, the close and the load.
\<close>

lemma win32_extract_events:
  assumes "win32_extract cfg self w = (r, self', w')"
  shows "list_all quiet (new_events w w')
    \<or> (\<exists>pre l d reports rest.
          new_events w w' = pre @ [EvCreateNew d, EvUnlink l] @ reports @ rest
          \<and> list_all quiet pre \<and> list_all quiet reports \<and> lck_to_dll cfg l = Inr d
          \<and> (rest = [EvCopy d] \<or> rest = [EvCopy d, EvClose d]
             \<or> (\<exists>payload tail. resource_stream cfg = Inr payload
                  \<and> rest = [EvCopy d, EvClose d,
                            EvLoadLibrary d (Some \<lparr>content = payload, held = False\<rparr>)] @ tail
                  \<and> (tail = [] \<or> tail = [EvFreeLibrary d] \<or> tail = [EvOpenExisting d]))))"
proof -
  from assms obtain w1 where
    scan: "delete_old_files cfg (gettempdir w) w = (Inr (), w1)"
    and rest: "create_and_test cfg self w1 = (r, self', w')"
    by (auto simp: win32_extract_def delete_old_files_def split: prod.splits sum.splits)
  from delete_old_files_quiet [OF scan] obtain e0 where
    t1: "trace w1 = trace w @ e0" and q0: "list_all quiet e0" by blast
  obtain r2 w2 where cp: "create_pair cfg w1 = (r2, w2)"
    by (cases "create_pair cfg w1")
  show ?thesis
  proof (cases r2)
    case (Inl e)
    with cp rest have "w' = w2" by (simp add: create_and_test_def)
    with create_pair_failed cp Inl t1 q0 show ?thesis
      by (fastforce simp: new_events_def)
  next
    case (Inr ld)
    obtain l d where ld: "ld = (l, d)" by (cases ld)
    from create_pair_result cp Inr ld obtain tok e1 where
      l: "l = (gettempdir w1, tmp_prefix cfg @ tok @ lck_suffix)"
      and d: "d = (gettempdir w1, tmp_prefix cfg @ tok @ dll_suffix cfg)"
      and t2: "trace w2 = trace w1 @ e1 @ [EvCreateNew d]" and q1: "list_all quiet e1"
      and f2: "map_of (files w2) d = Some \<lparr>content = [], held = True\<rparr>"
      by blast
    from l d have pair: "lck_to_dll cfg l = Inr d" and differ: "d \<noteq> l"
      using dll_suffix_not_lck [of cfg] by (simp_all add: lck_to_dll_generated)
    obtain r3 w3 where sc: "sanity_check l w2 = (r3, w3)"
      by (cases "sanity_check l w2")
    from sanity_check_result [OF sc] obtain e3 where
      t3: "trace w3 = trace w2 @ EvUnlink l # e3" and q3: "list_all quiet e3"
      by blast
    from sanity_check_files [OF sc differ] f2
    have f3: "map_of (files w3) d = Some \<lparr>content = [], held = True\<rparr>"
      by simp
    from t1 t2 t3 have new3:
      "new_events w w3 = (e0 @ e1) @ [EvCreateNew d, EvUnlink l] @ e3"
      by (simp add: new_events_def)
    show ?thesis
    proof (cases r3)
      case (Inl e)
      with cp Inr ld sc rest have "w' = w3" by (simp add: create_and_test_def)
      with new3 q0 q1 q3 show ?thesis by (simp add: quiet_def)
    next
      case sane: (Inr u3)
      obtain r4 w4 where wr: "write_dll cfg d w3 = (r4, w4)"
        by (cases "write_dll cfg d w3")
      show ?thesis
      proof (cases r4)
        case (Inl e)
        with cp Inr ld sc sane wr rest have w': "w' = w4" by (simp add: create_and_test_def)
        from write_dll_failed wr Inl
        have "trace w4 = trace w3 \<or> trace w4 = trace w3 @ [EvCopy d]
          \<or> trace w4 = trace w3 @ [EvCopy d, EvClose d]" by blast
        then show ?thesis
        proof (elim disjE)
          assume "trace w4 = trace w3"
          with w' new3 q0 q1 q3 show ?thesis by (simp add: new_events_def quiet_def)
        next
          assume "trace w4 = trace w3 @ [EvCopy d]"
          with w' t1 t2 t3
          have ev: "new_events w w' = (e0 @ e1) @ [EvCreateNew d, EvUnlink l] @ e3 @ [EvCopy d]"
            by (simp add: new_events_def)
          show ?thesis
            by (rule disjI2, rule exI [of _ "e0 @ e1"], rule exI [of _ l],
                rule exI [of _ d], rule exI [of _ e3], rule exI [of _ "[EvCopy d]"])
               (use ev q0 q1 q3 pair in simp)
        next
          assume "trace w4 = trace w3 @ [EvCopy d, EvClose d]"
          with w' t1 t2 t3
          have ev: "new_events w w'
            = (e0 @ e1) @ [EvCreateNew d, EvUnlink l] @ e3 @ [EvCopy d, EvClose d]"
            by (simp add: new_events_def)
          show ?thesis
            by (rule disjI2, rule exI [of _ "e0 @ e1"], rule exI [of _ l],
                rule exI [of _ d], rule exI [of _ e3],
                rule exI [of _ "[EvCopy d, EvClose d]"])
               (use ev q0 q1 q3 pair in simp)
        qed
      next
        case written: (Inr u4)
        from write_dll_done wr written f3 obtain payload where
          stream: "resource_stream cfg = Inr payload"
          and t4: "trace w4 = trace w3 @ [EvCopy d, EvClose d]"
          and f4: "map_of (files w4) d = Some \<lparr>content = payload, held = False\<rparr>"
          by fastforce
        obtain r5 w5 where tl: "test_load d w4 = (r5, w5)"
          by (cases "test_load d w4")
        with cp Inr ld sc sane wr written rest have w': "w' = w5"
          by (auto simp: create_and_test_def split: sum.splits)
        from test_load_events [OF tl] f4 obtain tail where
          t5: "trace w5 = trace w4 @ EvLoadLibrary d (Some \<lparr>content = payload, held = False\<rparr>) # tail"
          and tail: "tail = [] \<or> tail = [EvFreeLibrary d] \<or> tail = [EvOpenExisting d]"
          by auto
        from w' t1 t2 t3 t4 t5
        have ev: "new_events w w' = (e0 @ e1) @ [EvCreateNew d, EvUnlink l] @ e3
            @ [EvCopy d, EvClose d,
               EvLoadLibrary d (Some \<lparr>content = payload, held = False\<rparr>)] @ tail"
          by (simp add: new_events_def)
        show ?thesis
          by (rule disjI2, rule exI [of _ "e0 @ e1"], rule exI [of _ l],
              rule exI [of _ d], rule exI [of _ e3],
              rule exI [of _ "[EvCopy d, EvClose d,
                 EvLoadLibrary d (Some \<lparr>content = payload, held = False\<rparr>)] @ tail"])
             (use ev q0 q1 q3 pair stream tail in auto)
      qed
    qed
  qed
qed

lemma quiet_excludes: "list_all quiet evs \<Longrightarrow> \<not> quiet e \<Longrightarrow> e \<notin> set evs"
  by (auto simp: list_all_iff)

section \<open>The library is written and closed before it is loaded\<close>

text \<open>
  C6. Whenever a call of \<open>_win32_extract\<close> reaches \<open>LoadLibrary\<close> on a file, the two
  steps just before it are the copy of the payload into that file and the close of that
  file, no load came earlier in the call, and what the loader finds is the file with the
  whole payload of the resource stream and no handle open on it. And when the call
  returns normally, the file whose path it stores, which is the path that \<open>dll_filename\<close>
  gives to whoever loads the library next, holds the whole payload and is closed.
\<close>

theorem library_closed_before_load:
  assumes "win32_extract cfg self w = (r, self', w')"
  shows "(\<forall>p obs. EvLoadLibrary p obs \<in> set (new_events w w') \<longrightarrow>
           (\<exists>payload pre post. resource_stream cfg = Inr payload
              \<and> obs = Some \<lparr>content = payload, held = False\<rparr>
              \<and> new_events w w' = pre @ [EvCopy p, EvClose p, EvLoadLibrary p obs] @ post
              \<and> (\<forall>q f. EvLoadLibrary q f \<notin> set pre)))
    \<and> (\<forall>u. r = Inr u \<longrightarrow>
           (\<exists>d payload. extracted_filename self' = Some d \<and> resource_stream cfg = Inr payload
              \<and> map_of (files w') d = Some \<lparr>content = payload, held = False\<rparr>))"
proof (intro conjI allI impI)
  fix p obs
  assume load: "EvLoadLibrary p obs \<in> set (new_events w w')"
  have not_quiet: "\<not> quiet (EvLoadLibrary q f)" for q f
    by (simp add: quiet_def)
  from load not_quiet [of p obs] have "\<not> list_all quiet (new_events w w')"
    unfolding list_all_iff by blast
  with win32_extract_events [OF assms]
  obtain pre l d reports rest where
    ev: "new_events w w' = pre @ [EvCreateNew d, EvUnlink l] @ reports @ rest"
    and qp: "list_all quiet pre" and qr: "list_all quiet reports"
    and shape: "rest = [EvCopy d] \<or> rest = [EvCopy d, EvClose d]
             \<or> (\<exists>payload tail. resource_stream cfg = Inr payload
                  \<and> rest = [EvCopy d, EvClose d,
                            EvLoadLibrary d (Some \<lparr>content = payload, held = False\<rparr>)] @ tail
                  \<and> (tail = [] \<or> tail = [EvFreeLibrary d] \<or> tail = [EvOpenExisting d]))"
    by blast
  have np: "EvLoadLibrary q f \<notin> set pre"
    and nr: "EvLoadLibrary q f \<notin> set reports" for q f
    by (rule quiet_excludes [OF qp not_quiet], rule quiet_excludes [OF qr not_quiet])
  from load ev np nr have in_rest: "EvLoadLibrary p obs \<in> set rest"
    by auto
  with shape obtain payload tail where
    stream: "resource_stream cfg = Inr payload"
    and rest: "rest = [EvCopy d, EvClose d,
                       EvLoadLibrary d (Some \<lparr>content = payload, held = False\<rparr>)] @ tail"
    and tail: "tail = [] \<or> tail = [EvFreeLibrary d] \<or> tail = [EvOpenExisting d]"
    by auto
  from in_rest rest tail have p: "p = d" and obs: "obs = Some \<lparr>content = payload, held = False\<rparr>"
    by auto
  let ?pre = "pre @ [EvCreateNew d, EvUnlink l] @ reports"
  from ev rest p obs
  have "new_events w w' = ?pre @ [EvCopy p, EvClose p, EvLoadLibrary p obs] @ tail"
    by simp
  moreover from np nr have "\<forall>q f. EvLoadLibrary q f \<notin> set ?pre"
    by simp
  ultimately show "\<exists>payload pre post. resource_stream cfg = Inr payload
              \<and> obs = Some \<lparr>content = payload, held = False\<rparr>
              \<and> new_events w w' = pre @ [EvCopy p, EvClose p, EvLoadLibrary p obs] @ post
              \<and> (\<forall>q f. EvLoadLibrary q f \<notin> set pre)"
    using stream obs by blast
next
  fix u
  assume "r = Inr u"
  with assms have "win32_extract cfg self w = (Inr u, self', w')"
    by simp
  then show "\<exists>d payload. extracted_filename self' = Some d \<and> resource_stream cfg = Inr payload
              \<and> map_of (files w') d = Some \<lparr>content = payload, held = False\<rparr>"
    by (rule extracted_file_complete)
qed

theorem library_closed_before_load_witness:
  "win32_extract loader_config init empty_world = (Inr (), extracted_loader, extracted_world)
   \<and> EvLoadLibrary sample_dll (Some \<lparr>content = ''MZ-payload'', held = False\<rparr>)
       \<in> set (new_events empty_world extracted_world)
   \<and> (\<exists>pre post. new_events empty_world extracted_world
         = pre @ [EvCopy sample_dll, EvClose sample_dll,
                  EvLoadLibrary sample_dll (Some \<lparr>content = ''MZ-payload'', held = False\<rparr>)]
           @ post)
   \<and> map_of (files extracted_world) sample_dll
       = Some \<lparr>content = ''MZ-payload'', held = False\<rparr>"
proof -
  note both = library_closed_before_load [OF extract_empty_world]
  have loaded: "EvLoadLibrary sample_dll (Some \<lparr>content = ''MZ-payload'', held = False\<rparr>)
       \<in> set (new_events empty_world extracted_world)"
    by (simp add: new_events_def empty_world_def extracted_world_def)
  with both
  have before: "\<exists>pre post. new_events empty_world extracted_world
         = pre @ [EvCopy sample_dll, EvClose sample_dll,
                  EvLoadLibrary sample_dll (Some \<lparr>content = ''MZ-payload'', held = False\<rparr>)]
           @ post"
    by blast
  from both have "\<exists>d payload. extracted_filename extracted_loader = Some d
      \<and> resource_stream loader_config = Inr payload
      \<and> map_of (files extracted_world) d = Some \<lparr>content = payload, held = False\<rparr>"
    by blast
  then have after: "map_of (files extracted_world) sample_dll
       = Some \<lparr>content = ''MZ-payload'', held = False\<rparr>"
    by (auto simp: extracted_loader_def loader_config_simps)
  from extract_empty_world loaded before after show ?thesis by simp
qed

section \<open>Where the sanity check stands\<close>

text \<open>
  C7, as the code has it. Whenever a call of \<open>_win32_extract\<close> copies the payload into
  the library file, the sanity check (the \<open>os.unlink\<close> on the lock file paired with that
  library file) is the step right after the creation of the library file, and neither the
  copy into the library file nor its close comes before it.
\<close>

theorem sanity_check_before_copy:
  assumes "win32_extract cfg self w = (r, self', w')"
      and "EvCopy d \<in> set (new_events w w')"
  shows "\<exists>pre post l. new_events w w' = pre @ [EvCreateNew d, EvUnlink l] @ post
      \<and> lck_to_dll cfg l = Inr d
      \<and> EvCopy d \<notin> set pre \<and> EvClose d \<notin> set pre \<and> EvCopy d \<in> set post"
proof -
  have not_quiet: "\<not> quiet (EvCopy q)" "\<not> quiet (EvClose q)" for q
    by (simp_all add: quiet_def)
  from assms(2) not_quiet(1) [of d] have "\<not> list_all quiet (new_events w w')"
    unfolding list_all_iff by blast
  with win32_extract_events [OF assms(1)]
  obtain pre l d' reports rest where
    ev: "new_events w w' = pre @ [EvCreateNew d', EvUnlink l] @ reports @ rest"
    and qp: "list_all quiet pre" and qr: "list_all quiet reports"
    and pair: "lck_to_dll cfg l = Inr d'"
    and shape: "rest = [EvCopy d'] \<or> rest = [EvCopy d', EvClose d']
             \<or> (\<exists>payload tail. resource_stream cfg = Inr payload
                  \<and> rest = [EvCopy d', EvClose d',
                            EvLoadLibrary d' (Some \<lparr>content = payload, held = False\<rparr>)] @ tail
                  \<and> (tail = [] \<or> tail = [EvFreeLibrary d'] \<or> tail = [EvOpenExisting d']))"
    by blast
  have np: "EvCopy q \<notin> set pre" "EvClose q \<notin> set pre"
    and nr: "EvCopy q \<notin> set reports" for q
    by (rule quiet_excludes [OF qp not_quiet(1)], rule quiet_excludes [OF qp not_quiet(2)],
        rule quiet_excludes [OF qr not_quiet(1)])
  from assms(2) ev np nr have in_rest: "EvCopy d \<in> set rest"
    by auto
  with shape have d: "d' = d"
    by auto
  from in_rest have "EvCopy d \<in> set (reports @ rest)"
    by simp
  with ev pair np d show ?thesis
    by (intro exI [of _ pre] exI [of _ "reports @ rest"] exI [of _ l]) simp
qed

theorem sanity_check_before_copy_witness:
  "win32_extract loader_config init empty_world = (Inr (), extracted_loader, extracted_world)
   \<and> EvCopy sample_dll \<in> set (new_events empty_world extracted_world)
   \<and> (\<exists>pre post l. new_events empty_world extracted_world
         = pre @ [EvCreateNew sample_dll, EvUnlink l] @ post
       \<and> lck_to_dll loader_config l = Inr sample_dll
       \<and> EvCopy sample_dll \<notin> set pre \<and> EvClose sample_dll \<notin> set pre)"
proof -
  have copied: "EvCopy sample_dll \<in> set (new_events empty_world extracted_world)"
    by (simp add: new_events_def empty_world_def extracted_world_def)
  from sanity_check_before_copy [OF extract_empty_world copied]
  have "\<exists>pre post l. new_events empty_world extracted_world
         = pre @ [EvCreateNew sample_dll, EvUnlink l] @ post
       \<and> lck_to_dll loader_config l = Inr sample_dll
       \<and> EvCopy sample_dll \<notin> set pre \<and> EvClose sample_dll \<notin> set pre"
    by blast
  with extract_empty_world copied show ?thesis by simp
qed

text \<open>
  C7 as the specification states it fails: in the extraction into the empty temporary
  directory the \<open>os.unlink\<close> of the sanity check does not come after the close of the
  library file; the copy comes after it.
\<close>

theorem sanity_check_counterexample:
  "snd (snd (win32_extract loader_config init empty_world)) = extracted_world
   \<and> \<not> precedes (EvClose sample_dll) (EvUnlink sample_lock)
         (new_events empty_world extracted_world)
   \<and> precedes (EvUnlink sample_lock) (EvCopy sample_dll)
         (new_events empty_world extracted_world)"
  by (simp add: extract_empty_world)
     (simp add: precedes_def new_events_def empty_world_def extracted_world_def
        sample_lock_def sample_dll_def)

section \<open>The identifier in the names\<close>

lemma extract_later_world:
  "fst (win32_extract loader_config extracted_loader later_world) = Inr ()"
  "extracted_filename (fst (snd (win32_extract loader_config extracted_loader later_world)))
     = Some later_dll"
  by (simp_all add: extract_defs os_defs winerror_defs loader_config_simps mkstemp_inner_pos
      regex_search_prefixed regex_search_other_suffix lck_is_no_dll ci_eq_suffixes
      lck_to_dll_def lck_suffix_def later_world_def orphan_world_def empty_world_def
      sample_tokens_def extracted_loader_def old_lock_def old_dll_def later_dll_def Let_def)

text \<open>
  C9. The identifier that \<open>_win32_extract\<close> puts into the names is \<open>dll_uuid\<close>, the
  \<open>uuid5\<close> of the package name and the library name under the fixed namespace. Two
  extractions for the same package name and library name, whatever else differs (the
  loader objects, the worlds with their files and random names, the rest of the
  configuration), compute the same identifier and return paths whose base names begin
  with the library name followed by that identifier in braces.
\<close>

theorem payload_identity_stable:
  assumes "package_name c1 = package_name c2" and "dll_name c1 = dll_name c2"
      and "win32_extract c1 s1 w1 = (Inr u1, s1', w1')"
      and "win32_extract c2 s2 w2 = (Inr u2, s2', w2')"
  shows "dll_uuid c1 = dll_uuid c2
    \<and> dll_uuid c1 = uuid_str (uuid5 ns_uuid (package_name c1 @ ''.'' @ dll_name c1))
    \<and> (\<exists>dir1 tok1 dir2 tok2.
          extracted_filename s1'
            = Some (dir1, dll_name c1 @ ''.{'' @ dll_uuid c1 @ ''}.tmp'' @ tok1 @ dll_suffix c1)
        \<and> extracted_filename s2'
            = Some (dir2, dll_name c1 @ ''.{'' @ dll_uuid c1 @ ''}.tmp'' @ tok2 @ dll_suffix c2))"
proof -
  have named: "\<exists>dir tok. extracted_filename s'
        = Some (dir, dll_name c @ ''.{'' @ dll_uuid c @ ''}.tmp'' @ tok @ dll_suffix c)"
    if "win32_extract c s w = (Inr u, s', w')" for c s w u s' w'
  proof -
    from that obtain w0 l d w2 where pair: "create_pair c w0 = (Inr (l, d), w2)"
      and field: "extracted_filename s' = Some d"
      by (auto simp: win32_extract_def create_and_test_def split: prod.splits sum.splits)
    from create_pair_result [OF pair] obtain tok where
      "d = (gettempdir w0, tmp_prefix c @ tok @ dll_suffix c)" by blast
    with field show ?thesis
      by (auto simp: tmp_prefix_def)
  qed
  from assms(1,2) have same: "dll_uuid c1 = dll_uuid c2"
    by (simp add: dll_uuid_def)
  from named [OF assms(3)] named [OF assms(4)] same assms(2) show ?thesis
    by (auto simp: dll_uuid_def)
qed

theorem payload_identity_stable_witness:
  "fst (win32_extract loader_config init empty_world) = Inr ()
   \<and> fst (win32_extract loader_config extracted_loader later_world) = Inr ()
   \<and> dll_uuid loader_config = ''5f3e3153-5bce-5766-8f84-3e3e7ecf0d81''
   \<and> (\<exists>dir1 tok1 dir2 tok2.
         sample_dll = (dir1, dll_name loader_config @ ''.{'' @ dll_uuid loader_config @ ''}.tmp''
                             @ tok1 @ dll_suffix loader_config)
       \<and> later_dll = (dir2, dll_name loader_config @ ''.{'' @ dll_uuid loader_config @ ''}.tmp''
                            @ tok2 @ dll_suffix loader_config))"
proof -
  obtain s2 w2 where second:
    "win32_extract loader_config extracted_loader later_world = (Inr (), s2, w2)"
    using extract_later_world(1)
    by (cases "win32_extract loader_config extracted_loader later_world") auto
  with extract_later_world(2) have field: "extracted_filename s2 = Some later_dll"
    by simp
  from payload_identity_stable [OF refl refl extract_empty_world second,
      THEN conjunct2, THEN conjunct2] field
  have "\<exists>dir1 tok1 dir2 tok2.
         sample_dll = (dir1, dll_name loader_config @ ''.{'' @ dll_uuid loader_config @ ''}.tmp''
                             @ tok1 @ dll_suffix loader_config)
       \<and> later_dll = (dir2, dll_name loader_config @ ''.{'' @ dll_uuid loader_config @ ''}.tmp''
                            @ tok2 @ dll_suffix loader_config)"
    by (simp add: extracted_loader_def)
  with extract_empty_world second dll_uuid_loader show ?thesis
    by simp
qed

section \<open>A name collision while the pair is created\<close>

text \<open>
  C1 on the code. In \<open>collision_world\<close> the library file paired with the first lock name
  exists already. The call creates the lock file, fails to create the library file, and
  raises the \<open>ERROR_FILE_EXISTS\<close> of \<open>CreateFileW\<close> at once: one name was tried, no
  \<open>AssertionError\<close> for too many retries is raised, and the lock file just created stays
  in the temporary directory.
\<close>

theorem collision_not_retried:
  "win32_extract loader_config init collision_world
     = (Inl (Win32Error ERROR_FILE_EXISTS), init,
        collision_world
          \<lparr>files := [(sample_lock, \<lparr>content = [], held = True\<rparr>),
                     (sample_dll, \<lparr>content = ''MZ-old'', held = True\<rparr>)],
           next_token := 1,
           trace := [EvListdir ''Temp'', EvUnlink sample_lock, EvUnlink sample_dll,
                     EvUnhandledExc (WindowsError ERROR_SHARING_VIOLATION),
                     EvOpenExcl sample_lock, EvCreateNew sample_dll]\<rparr>)"
  by (simp add: extract_defs os_defs winerror_defs loader_config_simps mkstemp_inner_pos
      regex_search_prefixed ci_eq_suffixes lck_to_dll_def lck_suffix_def collision_world_def
      empty_world_def sample_tokens_def init_def sample_lock_def sample_dll_def Let_def)

section \<open>The cleanup pass and the lock files\<close>

subsection \<open>Names of lock files are not names of libraries\<close>

lemma ci_eq_last:
  assumes "ci_eq a s" and "a \<noteq> []"
  shows "ascii_lower (last a) = ascii_lower (last s)"
proof -
  from assms have "map ascii_lower a = map ascii_lower s" and "s \<noteq> []"
    by (auto simp: ci_eq_def)
  with assms(2) show ?thesis
    by (metis last_map)
qed

lemma lck_name_no_match_end: "\<not> match_end pre (dll_suffix cfg) (g @ lck_suffix)"
proof
  let ?s = "g @ lck_suffix" and ?suf = "dll_suffix cfg"
  assume m: "match_end pre ?suf ?s"
  have pos: "0 < length ?suf"
    by (simp add: dll_suffix_def)
  from m have le: "length ?suf \<le> length ?s"
    and ce: "ci_eq (drop (length ?s - length ?suf) ?s) ?suf"
    by (simp_all add: match_end_def)
  from pos le have lt: "length ?s - length ?suf < length ?s"
    by arith
  then have ne: "drop (length ?s - length ?suf) ?s \<noteq> []"
    by (metis drop_eq_Nil not_le)
  from lt have "last (drop (length ?s - length ?suf) ?s) = last ?s"
    by (rule last_drop)
  also have "\<dots> = CHR ''k''"
    by (simp add: lck_suffix_def)
  finally have "ascii_lower (CHR ''k'') = ascii_lower (last ?suf)"
    using ci_eq_last [OF ce ne] by simp
  then show False
    by (simp add: dll_suffix_def ascii_lower_def split: if_splits)
qed

lemma lck_name_is_no_dll: "regex_search pre (dll_suffix cfg) (g @ lck_suffix) = None"
proof -
  have "last (g @ lck_suffix) \<noteq> CHR 0x0A"
    by (simp add: lck_suffix_def)
  then show ?thesis
    by (simp add: regex_search_def lck_name_no_match_end)
qed

lemma candidate_is_no_lock:
  "regex_search pre (dll_suffix cfg) b = Some g \<Longrightarrow> b \<noteq> g' @ lck_suffix"
  using lck_name_is_no_dll [of pre cfg g'] by auto

subsection \<open>What \<open>os.unlink\<close> does and answers\<close>

lemma os_unlink_fault: "os_unlink p x = (r, x') \<Longrightarrow> fault x' = fault x"
  by (auto simp: os_unlink_def log_def Let_def split: option.splits if_splits)

lemma os_unlink_other:
  "os_unlink p x = (r, x') \<Longrightarrow> q \<noteq> p \<Longrightarrow> map_of (files x') q = map_of (files x) q"
  by (auto simp: os_unlink_def log_def map_of_fs_remove_other Let_def
      split: option.splits if_splits)

lemma os_unlink_removed: "os_unlink p x = (Inr u, x') \<Longrightarrow> map_of (files x') p = None"
  by (auto simp: os_unlink_def log_def map_of_fs_remove Let_def split: option.splits if_splits)

lemma os_unlink_fst:
  "fst (os_unlink p x) =
     (case fault x (OpUnlink p) of
        Some e \<Rightarrow> Inl e
      | None \<Rightarrow>
          (case map_of (files x) p of
             None \<Rightarrow> Inl (WindowsError ERROR_FILE_NOT_FOUND)
           | Some f \<Rightarrow> if held f then Inl (WindowsError ERROR_SHARING_VIOLATION) else Inr ()))"
  by (simp add: os_unlink_def Let_def split: option.splits)

lemma os_unlink_same_outcome:
  "fault x = fault w \<Longrightarrow> map_of (files x) p = map_of (files w) p
     \<Longrightarrow> fst (os_unlink p x) = fst (os_unlink p w)"
  by (simp add: os_unlink_fst split: option.splits)

lemma os_unlink_absent_outcome:
  assumes "fault x = fault w" and "map_of (files x) p = None"
      and "fst (os_unlink p w) = Inr ()
           \<or> fst (os_unlink p w) = Inl (WindowsError ERROR_FILE_NOT_FOUND)"
  shows "fst (os_unlink p x) = Inl (WindowsError ERROR_FILE_NOT_FOUND)"
  using assms by (auto simp: os_unlink_fst split: option.splits if_splits)

lemma os_unlink_passes_still:
  assumes "fault x = fault w"
      and "map_of (files x) p = map_of (files w) p \<or> map_of (files x) p = None"
      and "fst (os_unlink p w) = Inr ()
           \<or> fst (os_unlink p w) = Inl (WindowsError ERROR_FILE_NOT_FOUND)"
  shows "fst (os_unlink p x) = Inr ()
         \<or> fst (os_unlink p x) = Inl (WindowsError ERROR_FILE_NOT_FOUND)"
  using assms os_unlink_same_outcome [of x w p] os_unlink_absent_outcome [of x w p]
  by metis

lemma os_unlink_windows_error:
  assumes "os_unlink p x = (Inl e, x')"
      and "\<forall>q e. fault x (OpUnlink q) = Some e \<longrightarrow> (\<exists>n. e = WindowsError n)"
  shows "\<exists>n. e = WindowsError n"
proof (cases "fault x (OpUnlink p)")
  case None
  with assms(1) show ?thesis
    by (auto simp: os_unlink_def Let_def split: option.splits if_splits)
next
  case (Some e')
  with assms(1) have "e = e'"
    by (simp add: os_unlink_def Let_def)
  with Some assms(2) show ?thesis by blast
qed

subsection \<open>What one pass of the loop body does\<close>

lemma delete_dll_summary:
  assumes "delete_dll p x = (r, x')"
  shows "\<exists>r0 x0. os_unlink p x = (r0, x0) \<and> files x' = files x0 \<and> fault x' = fault x0
      \<and> (trace x' = trace x0 \<or> (\<exists>e. trace x' = trace x0 @ [EvUnhandledExc e]))
      \<and> (r = Inr () \<or> (\<exists>e. r = Inl e \<and> r0 = Inl e \<and> (\<forall>n. e \<noteq> WindowsError n)))"
proof -
  obtain r0 x0 where u: "os_unlink p x = (r0, x0)"
    by (cases "os_unlink p x")
  with assms show ?thesis
    by (cases r0; cases "projl r0")
       (auto simp: delete_dll_def unhandled_exc_handler_def log_def split: if_splits)
qed

lemma scan_entry_unmatched:
  "regex_search (tmp_prefix cfg) (dll_suffix cfg) b = None \<Longrightarrow> scan_entry cfg dir b x = (Inr (), x)"
  by (simp add: scan_entry_def)

lemma scan_entry_summary:
  assumes "regex_search (tmp_prefix cfg) (dll_suffix cfg) b = Some g"
      and "scan_entry cfg dir b x = (r, x')"
  shows "\<exists>r0 x0. os_unlink (dir, g @ lck_suffix) x = (r0, x0)
      \<and> ((r0 = Inr () \<or> r0 = Inl (WindowsError ERROR_FILE_NOT_FOUND))
            \<and> delete_dll (dir, b) x0 = (r, x')
          \<or> r0 \<noteq> Inr () \<and> r0 \<noteq> Inl (WindowsError ERROR_FILE_NOT_FOUND)
            \<and> files x' = files x0 \<and> fault x' = fault x0
            \<and> (trace x' = trace x0 \<or> (\<exists>e. trace x' = trace x0 @ [EvUnhandledExc e]))
            \<and> (r = Inr () \<or> (\<exists>e. r = Inl e \<and> r0 = Inl e \<and> (\<forall>n. e \<noteq> WindowsError n))))"
proof -
  obtain r0 x0 where u: "os_unlink (dir, g @ lck_suffix) x = (r0, x0)"
    by (cases "os_unlink (dir, g @ lck_suffix) x")
  from assms(1) have lck: "dll_to_lck cfg (dir, b) = Inr (dir, g @ lck_suffix)"
    by (simp add: dll_to_lck_def)
  from assms u lck show ?thesis
    by (cases r0; cases "projl r0")
       (auto simp: scan_entry_def unhandled_exc_handler_def log_def split: if_splits)
qed

lemma delete_dll_effect:
  assumes "delete_dll p x = (r, x')"
  shows "fault x' = fault x"
    and "\<exists>rest. trace x' = trace x @ EvUnlink p # rest \<and> (\<forall>q. EvUnlink q \<notin> set rest)"
    and "q \<noteq> p \<Longrightarrow> map_of (files x') q = map_of (files x) q"
    and "fst (os_unlink p x) = Inr () \<Longrightarrow> map_of (files x') p = None"
    and "fst (os_unlink p x) \<noteq> Inr () \<Longrightarrow> map_of (files x') p = map_of (files x) p"
    and "\<forall>q e. fault x (OpUnlink q) = Some e \<longrightarrow> (\<exists>n. e = WindowsError n) \<Longrightarrow> r = Inr ()"
proof -
  from delete_dll_summary [OF assms] obtain r0 x0 where
    u: "os_unlink p x = (r0, x0)" and f: "files x' = files x0" and fl: "fault x' = fault x0"
    and t: "trace x' = trace x0 \<or> (\<exists>e. trace x' = trace x0 @ [EvUnhandledExc e])"
    and r: "r = Inr () \<or> (\<exists>e. r = Inl e \<and> r0 = Inl e \<and> (\<forall>n. e \<noteq> WindowsError n))"
    by blast
  from fl os_unlink_fault [OF u] show "fault x' = fault x"
    by simp
  from t os_unlink_trace [OF u]
  show "\<exists>rest. trace x' = trace x @ EvUnlink p # rest \<and> (\<forall>q. EvUnlink q \<notin> set rest)"
    by auto
  show "map_of (files x') q = map_of (files x) q" if "q \<noteq> p"
    using f os_unlink_other [OF u that] by simp
  show "map_of (files x') p = None" if "fst (os_unlink p x) = Inr ()"
  proof -
    from that u have "os_unlink p x = (Inr (), x0)" by simp
    from os_unlink_removed [OF this] f show ?thesis by simp
  qed
  show "map_of (files x') p = map_of (files x) p" if "fst (os_unlink p x) \<noteq> Inr ()"
  proof -
    from that u obtain e where "os_unlink p x = (Inl e, x0)"
      by (cases r0) auto
    from os_unlink_sharing_files [OF this] f show ?thesis by simp
  qed
  show "r = Inr ()" if h: "\<forall>q e. fault x (OpUnlink q) = Some e \<longrightarrow> (\<exists>n. e = WindowsError n)"
  proof (rule ccontr)
    assume "r \<noteq> Inr ()"
    with r obtain e where "r0 = Inl e" and no: "\<forall>n. e \<noteq> WindowsError n"
      by blast
    with u have "os_unlink p x = (Inl e, x0)" by simp
    from os_unlink_windows_error [OF this h] no show False by blast
  qed
qed

lemma scan_entry_effect:
  assumes m: "regex_search (tmp_prefix cfg) (dll_suffix cfg) b = Some g"
      and run: "scan_entry cfg dir b x = (r, x')"
  shows "fault x' = fault x"
    and "\<exists>evs. trace x' = trace x @ EvUnlink (dir, g @ lck_suffix) # evs
          \<and> (\<forall>q. EvUnlink q \<in> set evs \<longrightarrow>
                q = (dir, b)
                \<and> (fst (os_unlink (dir, g @ lck_suffix) x) = Inr ()
                   \<or> fst (os_unlink (dir, g @ lck_suffix) x)
                       = Inl (WindowsError ERROR_FILE_NOT_FOUND)))
          \<and> (fst (os_unlink (dir, g @ lck_suffix) x) = Inr ()
               \<or> fst (os_unlink (dir, g @ lck_suffix) x)
                   = Inl (WindowsError ERROR_FILE_NOT_FOUND)
             \<longrightarrow> EvUnlink (dir, b) \<in> set evs)"
    and "q \<noteq> (dir, g @ lck_suffix) \<Longrightarrow> q \<noteq> (dir, b)
          \<Longrightarrow> map_of (files x') q = map_of (files x) q"
    and "fst (os_unlink (dir, g @ lck_suffix) x) = Inr ()
          \<Longrightarrow> map_of (files x') (dir, g @ lck_suffix) = None"
    and "fst (os_unlink (dir, g @ lck_suffix) x) \<noteq> Inr ()
          \<Longrightarrow> map_of (files x') (dir, g @ lck_suffix) = map_of (files x) (dir, g @ lck_suffix)"
    and "fst (os_unlink (dir, g @ lck_suffix) x) = Inr ()
           \<or> fst (os_unlink (dir, g @ lck_suffix) x) = Inl (WindowsError ERROR_FILE_NOT_FOUND)
          \<Longrightarrow> fst (os_unlink (dir, b) x) = Inr ()
          \<Longrightarrow> map_of (files x') (dir, b) = None"
    and "\<not> ((fst (os_unlink (dir, g @ lck_suffix) x) = Inr ()
              \<or> fst (os_unlink (dir, g @ lck_suffix) x)
                  = Inl (WindowsError ERROR_FILE_NOT_FOUND))
             \<and> fst (os_unlink (dir, b) x) = Inr ())
          \<Longrightarrow> map_of (files x') (dir, b) = map_of (files x) (dir, b)"
    and "\<forall>q e. fault x (OpUnlink q) = Some e \<longrightarrow> (\<exists>n. e = WindowsError n) \<Longrightarrow> r = Inr ()"
proof -
  let ?lock = "(dir, g @ lck_suffix)" and ?dll = "(dir, b)"
  let ?passes = "fst (os_unlink ?lock x) = Inr ()
                 \<or> fst (os_unlink ?lock x) = Inl (WindowsError ERROR_FILE_NOT_FOUND)"
  from candidate_is_no_lock [OF m] have differ: "?dll \<noteq> ?lock" "?lock \<noteq> ?dll"
    by auto
  from scan_entry_summary [OF m run] obtain r0 x0 where
    u: "os_unlink ?lock x = (r0, x0)"
    and split: "(r0 = Inr () \<or> r0 = Inl (WindowsError ERROR_FILE_NOT_FOUND))
            \<and> delete_dll ?dll x0 = (r, x')
          \<or> r0 \<noteq> Inr () \<and> r0 \<noteq> Inl (WindowsError ERROR_FILE_NOT_FOUND)
            \<and> files x' = files x0 \<and> fault x' = fault x0
            \<and> (trace x' = trace x0 \<or> (\<exists>e. trace x' = trace x0 @ [EvUnhandledExc e]))
            \<and> (r = Inr () \<or> (\<exists>e. r = Inl e \<and> r0 = Inl e \<and> (\<forall>n. e \<noteq> WindowsError n)))"
    by blast
  from u have r0: "fst (os_unlink ?lock x) = r0" by simp
  note fl0 = os_unlink_fault [OF u]
  note t0 = os_unlink_trace [OF u]
  have same_dll: "fst (os_unlink ?dll x0) = fst (os_unlink ?dll x)"
    using os_unlink_same_outcome [OF fl0 os_unlink_other [OF u differ(1)]] .
  have lock0: "map_of (files x0) ?lock = None" if "r0 = Inr ()"
    using os_unlink_removed u that by simp
  have files0: "files x0 = files x" if "r0 \<noteq> Inr ()"
  proof -
    from that u obtain e where "os_unlink ?lock x = (Inl e, x0)"
      by (cases r0) auto
    then show ?thesis by (rule os_unlink_sharing_files)
  qed
  show "fault x' = fault x"
    using split fl0 delete_dll_effect(1) by auto
  show "\<exists>evs. trace x' = trace x @ EvUnlink ?lock # evs
          \<and> (\<forall>q. EvUnlink q \<in> set evs \<longrightarrow> q = ?dll \<and> ?passes)
          \<and> (?passes \<longrightarrow> EvUnlink ?dll \<in> set evs)"
  proof (cases "r0 = Inr () \<or> r0 = Inl (WindowsError ERROR_FILE_NOT_FOUND)")
    case True
    with split have "delete_dll ?dll x0 = (r, x')" by blast
    from delete_dll_effect(2) [OF this] obtain rest where
      "trace x' = trace x0 @ EvUnlink ?dll # rest" and "\<forall>q. EvUnlink q \<notin> set rest"
      by blast
    with t0 True r0 show ?thesis
      by (intro exI [of _ "EvUnlink ?dll # rest"]) auto
  next
    case False
    with split have "trace x' = trace x0 \<or> (\<exists>e. trace x' = trace x0 @ [EvUnhandledExc e])"
      by blast
    with t0 False r0 show ?thesis by auto
  qed
  show "map_of (files x') q = map_of (files x) q" if "q \<noteq> ?lock" "q \<noteq> ?dll"
  proof (cases "r0 = Inr () \<or> r0 = Inl (WindowsError ERROR_FILE_NOT_FOUND)")
    case True
    with split have "delete_dll ?dll x0 = (r, x')" by blast
    from delete_dll_effect(3) [OF this that(2)] os_unlink_other [OF u that(1)]
    show ?thesis by simp
  next
    case False
    with split have "files x' = files x0" by blast
    with os_unlink_other [OF u that(1)] show ?thesis by simp
  qed
  have lock_after: "map_of (files x') ?lock = map_of (files x0) ?lock"
  proof (cases "r0 = Inr () \<or> r0 = Inl (WindowsError ERROR_FILE_NOT_FOUND)")
    case True
    with split have "delete_dll ?dll x0 = (r, x')" by blast
    from delete_dll_effect(3) [OF this differ(2)] show ?thesis .
  next
    case False
    with split show ?thesis by auto
  qed
  show "map_of (files x') ?lock = None" if "fst (os_unlink ?lock x) = Inr ()"
    using that r0 lock0 lock_after by simp
  show "map_of (files x') ?lock = map_of (files x) ?lock" if "fst (os_unlink ?lock x) \<noteq> Inr ()"
    using that r0 files0 lock_after by simp
  show "map_of (files x') ?dll = None" if "?passes" "fst (os_unlink ?dll x) = Inr ()"
  proof -
    from that(1) r0 split have "delete_dll ?dll x0 = (r, x')" by auto
    from delete_dll_effect(4) [OF this] that(2) same_dll show ?thesis by simp
  qed
  show "map_of (files x') ?dll = map_of (files x) ?dll"
    if "\<not> (?passes \<and> fst (os_unlink ?dll x) = Inr ())"
  proof (cases "r0 = Inr () \<or> r0 = Inl (WindowsError ERROR_FILE_NOT_FOUND)")
    case True
    with split have d: "delete_dll ?dll x0 = (r, x')" by blast
    from True r0 that have "fst (os_unlink ?dll x0) \<noteq> Inr ()"
      using same_dll by simp
    from delete_dll_effect(5) [OF d this] os_unlink_other [OF u differ(1)]
    show ?thesis by simp
  next
    case False
    with split have "files x' = files x0" by blast
    with os_unlink_other [OF u differ(1)] show ?thesis by simp
  qed
  show "r = Inr ()" if h: "\<forall>q e. fault x (OpUnlink q) = Some e \<longrightarrow> (\<exists>n. e = WindowsError n)"
  proof (cases "r0 = Inr () \<or> r0 = Inl (WindowsError ERROR_FILE_NOT_FOUND)")
    case True
    with split have d: "delete_dll ?dll x0 = (r, x')" by blast
    from h fl0 have "\<forall>q e. fault x0 (OpUnlink q) = Some e \<longrightarrow> (\<exists>n. e = WindowsError n)"
      by simp
    from delete_dll_effect(6) [OF d this] show ?thesis .
  next
    case False
    show ?thesis
    proof (rule ccontr)
      assume "r \<noteq> Inr ()"
      with False split obtain e where "r0 = Inl e" and no: "\<forall>n. e \<noteq> WindowsError n"
        by blast
      with u have "os_unlink ?lock x = (Inl e, x0)" by simp
      from os_unlink_windows_error [OF this h] no show False by blast
    qed
  qed
qed

lemma scan_entry_fault: "scan_entry cfg dir b x = (r, x') \<Longrightarrow> fault x' = fault x"
  by (cases "regex_search (tmp_prefix cfg) (dll_suffix cfg) b")
     (auto simp: scan_entry_unmatched dest: scan_entry_effect(1))

lemma scan_entry_grows:
  "scan_entry cfg dir b x = (r, x') \<Longrightarrow> \<exists>evs. trace x' = trace x @ evs"
  using scan_entry_quiet by blast

lemma scan_entry_shrinks:
  assumes "scan_entry cfg dir b x = (r, x')"
  shows "map_of (files x') q = map_of (files x) q \<or> map_of (files x') q = None"
proof (cases "regex_search (tmp_prefix cfg) (dll_suffix cfg) b")
  case None
  with assms show ?thesis by (simp add: scan_entry_unmatched)
next
  case (Some g)
  note e = scan_entry_effect [OF Some assms]
  show ?thesis
  proof (cases "q = (dir, g @ lck_suffix)")
    case True
    show ?thesis
    proof (cases "fst (os_unlink (dir, g @ lck_suffix) x) = Inr ()")
      case ok: True
      from e(4) [OF ok] True show ?thesis by simp
    next
      case no: False
      from e(5) [OF no] True show ?thesis by simp
    qed
  next
    case False
    show ?thesis
    proof (cases "q = (dir, b)")
      case True
      show ?thesis
      proof (cases "(fst (os_unlink (dir, g @ lck_suffix) x) = Inr ()
              \<or> fst (os_unlink (dir, g @ lck_suffix) x)
                  = Inl (WindowsError ERROR_FILE_NOT_FOUND))
             \<and> fst (os_unlink (dir, b) x) = Inr ()")
        case ok: True
        from e(6) [OF conjunct1 [OF ok] conjunct2 [OF ok]] True show ?thesis by simp
      next
        case no: False
        from e(7) [OF no] True show ?thesis by simp
      qed
    next
      case other: False
      from e(3) [OF False other] show ?thesis by simp
    qed
  qed
qed

lemma scan_entry_normal:
  assumes "scan_entry cfg dir b x = (r, x')"
      and "\<forall>q e. fault x (OpUnlink q) = Some e \<longrightarrow> (\<exists>n. e = WindowsError n)"
  shows "r = Inr ()"
proof (cases "regex_search (tmp_prefix cfg) (dll_suffix cfg) b")
  case None
  with assms(1) show ?thesis by (simp add: scan_entry_unmatched)
next
  case (Some g)
  from scan_entry_effect(8) [OF Some assms] show ?thesis .
qed

subsection \<open>The loop over the directory entries\<close>

lemma scan_loop_invariant:
  assumes step: "\<And>b x r x'. I x \<Longrightarrow> scan_entry cfg dir b x = (r, x') \<Longrightarrow> I x'"
      and "I x" and "scan_loop cfg dir names x = (r, x')"
  shows "I x'"
  using assms(2,3)
proof (induction names arbitrary: x)
  case Nil
  then show ?case by simp
next
  case (Cons b names)
  obtain r0 x0 where e: "scan_entry cfg dir b x = (r0, x0)"
    by (cases "scan_entry cfg dir b x")
  from step [OF Cons.prems(1) e] have i0: "I x0" .
  show ?case
  proof (cases r0)
    case (Inl err)
    with Cons.prems(2) e i0 show ?thesis by simp
  next
    case (Inr u)
    with Cons.prems(2) e have "scan_loop cfg dir names x0 = (r, x')" by simp
    from Cons.IH [OF i0 this] show ?thesis .
  qed
qed

text \<open>
  When no pass raises, the loop reaches every entry of the list: what the pass for an
  entry brings about, and what no later pass undoes, holds at the end of the loop.
\<close>

lemma scan_loop_reaches:
  assumes step: "\<And>b' x r x'. I x \<Longrightarrow> scan_entry cfg dir b' x = (r, x') \<Longrightarrow> I x' \<and> r = Inr ()"
      and hit: "\<And>x r x'. I x \<Longrightarrow> scan_entry cfg dir b x = (r, x') \<Longrightarrow> Q x'"
      and keep: "\<And>b' x r x'. I x \<Longrightarrow> Q x \<Longrightarrow> scan_entry cfg dir b' x = (r, x') \<Longrightarrow> Q x'"
      and "I x" and "b \<in> set names" and "scan_loop cfg dir names x = (r, x')"
  shows "Q x'"
  using assms(4,5,6)
proof (induction names arbitrary: x)
  case Nil
  then show ?case by simp
next
  case (Cons b0 names)
  obtain r0 x0 where e: "scan_entry cfg dir b0 x = (r0, x0)"
    by (cases "scan_entry cfg dir b0 x")
  from step [OF Cons.prems(1) e] have i0: "I x0" and "r0 = Inr ()"
    by simp_all
  with Cons.prems(3) e have rest: "scan_loop cfg dir names x0 = (r, x')"
    by simp
  show ?case
  proof (cases "b0 = b")
    case True
    with hit [OF Cons.prems(1)] e have q0: "Q x0" by blast
    have "I x' \<and> Q x'"
    proof (rule scan_loop_invariant [where I = "\<lambda>y. I y \<and> Q y"])
      show "I x0 \<and> Q x0"
        using i0 q0 by simp
      show "scan_loop cfg dir names x0 = (r, x')"
        by (rule rest)
      show "I y' \<and> Q y'" if "I y \<and> Q y" and "scan_entry cfg dir b' y = (r', y')"
        for b' y r' y'
        using that step keep by blast
    qed
    then show ?thesis by simp
  next
    case False
    with Cons.prems(2) have "b \<in> set names" by simp
    from Cons.IH [OF i0 this rest] show ?thesis .
  qed
qed

lemma drop_trace_grown:
  "n \<le> length t \<Longrightarrow> drop n (t @ evs) = drop n t @ evs"
  by simp

lemma scan_loop_normal:
  assumes "\<forall>q e. fault x (OpUnlink q) = Some e \<longrightarrow> (\<exists>n. e = WindowsError n)"
      and "scan_loop cfg dir names x = (r, x')"
  shows "r = Inr ()"
  using assms
proof (induction names arbitrary: x)
  case Nil
  then show ?case by simp
next
  case (Cons b names)
  obtain r0 x0 where e: "scan_entry cfg dir b x = (r0, x0)"
    by (cases "scan_entry cfg dir b x")
  from scan_entry_normal [OF e Cons.prems(1)] have "r0 = Inr ()" .
  with Cons.prems(2) e have rest: "scan_loop cfg dir names x0 = (r, x')"
    by simp
  from scan_entry_fault [OF e] Cons.prems(1)
  have "\<forall>q e. fault x0 (OpUnlink q) = Some e \<longrightarrow> (\<exists>n. e = WindowsError n)"
    by simp
  from Cons.IH [OF this rest] show ?case .
qed

text \<open>
  A candidate in the list, in a world where \<open>os.unlink\<close> raises nothing but
  \<open>WindowsError\<close>: the loop tries to delete its lock file; when that delete succeeds or
  finds no file at the start of the loop, the loop also tries to delete the library
  file; and what could be deleted at the start is gone at the end.
\<close>

lemma scan_loop_candidate:
  assumes m: "regex_search (tmp_prefix cfg) (dll_suffix cfg) b = Some g"
      and h: "\<forall>q e. fault w (OpUnlink q) = Some e \<longrightarrow> (\<exists>n. e = WindowsError n)"
      and start: "fault x0 = fault w" "length (trace w) \<le> length (trace x0)" "files x0 = files w"
      and mem: "b \<in> set names"
      and loop: "scan_loop cfg dir names x0 = (r, x')"
  shows "EvUnlink (dir, g @ lck_suffix) \<in> set (drop (length (trace w)) (trace x'))
    \<and> (fst (os_unlink (dir, g @ lck_suffix) w) = Inr ()
         \<or> fst (os_unlink (dir, g @ lck_suffix) w) = Inl (WindowsError ERROR_FILE_NOT_FOUND)
        \<longrightarrow> EvUnlink (dir, b) \<in> set (drop (length (trace w)) (trace x')))
    \<and> (fst (os_unlink (dir, g @ lck_suffix) w) = Inr ()
        \<longrightarrow> map_of (files x') (dir, g @ lck_suffix) = None)
    \<and> ((fst (os_unlink (dir, g @ lck_suffix) w) = Inr ()
          \<or> fst (os_unlink (dir, g @ lck_suffix) w) = Inl (WindowsError ERROR_FILE_NOT_FOUND))
         \<and> fst (os_unlink (dir, b) w) = Inr ()
        \<longrightarrow> map_of (files x') (dir, b) = None)"
proof -
  let ?lock = "(dir, g @ lck_suffix)" and ?dll = "(dir, b)"
  let ?n = "length (trace w)"
  let ?passes = "\<lambda>y. fst (os_unlink ?lock y) = Inr ()
                 \<or> fst (os_unlink ?lock y) = Inl (WindowsError ERROR_FILE_NOT_FOUND)"
  define I where "I = (\<lambda>y::world. fault y = fault w \<and> ?n \<le> length (trace y)
      \<and> (map_of (files y) ?lock = map_of (files w) ?lock \<or> map_of (files y) ?lock = None)
      \<and> (map_of (files y) ?dll = map_of (files w) ?dll \<or> map_of (files y) ?dll = None))"
  define Q where "Q = (\<lambda>y::world. EvUnlink ?lock \<in> set (drop ?n (trace y))
      \<and> (?passes w \<longrightarrow> EvUnlink ?dll \<in> set (drop ?n (trace y)))
      \<and> (fst (os_unlink ?lock w) = Inr () \<longrightarrow> map_of (files y) ?lock = None)
      \<and> (?passes w \<and> fst (os_unlink ?dll w) = Inr () \<longrightarrow> map_of (files y) ?dll = None))"
  have step: "I y' \<and> r' = Inr ()" if i: "I y" and run: "scan_entry cfg dir b' y = (r', y')"
    for b' y r' y'
  proof -
    from i have fl: "fault y = fault w" by (simp add: I_def)
    with h have "\<forall>q e. fault y (OpUnlink q) = Some e \<longrightarrow> (\<exists>n. e = WindowsError n)"
      by simp
    from scan_entry_normal [OF run this] have "r' = Inr ()" .
    moreover from scan_entry_fault [OF run] fl have "fault y' = fault w" by simp
    moreover from scan_entry_grows [OF run] i have "?n \<le> length (trace y')"
      by (auto simp: I_def)
    moreover from scan_entry_shrinks [OF run, of ?lock] i
    have "map_of (files y') ?lock = map_of (files w) ?lock \<or> map_of (files y') ?lock = None"
      unfolding I_def by metis
    moreover from scan_entry_shrinks [OF run, of ?dll] i
    have "map_of (files y') ?dll = map_of (files w) ?dll \<or> map_of (files y') ?dll = None"
      unfolding I_def by metis
    ultimately show ?thesis by (simp add: I_def)
  qed
  have keep: "Q y'" if i: "I y" and q: "Q y" and run: "scan_entry cfg dir b' y = (r', y')"
    for b' y r' y'
  proof -
    from scan_entry_grows [OF run] obtain evs where t: "trace y' = trace y @ evs" ..
    from i have "?n \<le> length (trace y)" by (simp add: I_def)
    with t have d: "drop ?n (trace y') = drop ?n (trace y) @ evs"
      by simp
    from scan_entry_shrinks [OF run, of ?lock]
    have l: "map_of (files y) ?lock = None \<Longrightarrow> map_of (files y') ?lock = None"
      by auto
    from scan_entry_shrinks [OF run, of ?dll]
    have dl: "map_of (files y) ?dll = None \<Longrightarrow> map_of (files y') ?dll = None"
      by auto
    from q d l dl show ?thesis
      unfolding Q_def by (metis Un_iff set_append)
  qed
  have hit: "Q y'" if i: "I y" and run: "scan_entry cfg dir b y = (r', y')" for y r' y'
  proof -
    note e = scan_entry_effect [OF m run]
    from i have fl: "fault y = fault w" and len: "?n \<le> length (trace y)"
      and sl: "map_of (files y) ?lock = map_of (files w) ?lock \<or> map_of (files y) ?lock = None"
      and sd: "map_of (files y) ?dll = map_of (files w) ?dll \<or> map_of (files y) ?dll = None"
      by (simp_all add: I_def)
    from e(2) obtain evs where t: "trace y' = trace y @ EvUnlink ?lock # evs"
      and ev: "?passes y \<longrightarrow> EvUnlink ?dll \<in> set evs"
      by blast
    from t len have d: "drop ?n (trace y') = drop ?n (trace y) @ EvUnlink ?lock # evs"
      by simp
    then have q1: "EvUnlink ?lock \<in> set (drop ?n (trace y'))"
      by simp
    have q2: "EvUnlink ?dll \<in> set (drop ?n (trace y'))" if p: "?passes w"
    proof -
      from os_unlink_passes_still [OF fl sl p] ev have "EvUnlink ?dll \<in> set evs"
        by blast
      with d show ?thesis by simp
    qed
    have q3: "map_of (files y') ?lock = None" if ok: "fst (os_unlink ?lock w) = Inr ()"
    proof (cases "fst (os_unlink ?lock y) = Inr ()")
      case True
      from e(4) [OF True] show ?thesis .
    next
      case False
      from sl have "map_of (files y) ?lock = None"
      proof
        assume "map_of (files y) ?lock = map_of (files w) ?lock"
        from os_unlink_same_outcome [OF fl this] ok False show ?thesis by simp
      qed
      with e(5) [OF False] show ?thesis by simp
    qed
    have q4: "map_of (files y') ?dll = None"
      if p: "?passes w" and ok: "fst (os_unlink ?dll w) = Inr ()"
    proof (cases "fst (os_unlink ?dll y) = Inr ()")
      case True
      from e(6) [OF os_unlink_passes_still [OF fl sl p] True] show ?thesis .
    next
      case False
      from sd have "map_of (files y) ?dll = None"
      proof
        assume "map_of (files y) ?dll = map_of (files w) ?dll"
        from os_unlink_same_outcome [OF fl this] ok False show ?thesis by simp
      qed
      moreover from False
      have "\<not> (?passes y \<and> fst (os_unlink ?dll y) = Inr ())" by simp
      from e(7) [OF this] have "map_of (files y') ?dll = map_of (files y) ?dll" .
      ultimately show ?thesis by simp
    qed
    from q1 q2 q3 q4 show ?thesis
      unfolding Q_def by blast
  qed
  have "Q x'"
  proof (rule scan_loop_reaches [where I = I and Q = Q and b = b])
    from start show "I x0"
      by (simp add: I_def)
    show "b \<in> set names"
      by (rule mem)
    show "scan_loop cfg dir names x0 = (r, x')"
      by (rule loop)
    show "I y' \<and> r' = Inr ()" if "I y" and "scan_entry cfg dir b' y = (r', y')"
      for b' y r' y'
      using that by (rule step)
    show "Q y'" if "I y" and "scan_entry cfg dir b y = (r', y')" for y r' y'
      using that by (rule hit)
    show "Q y'" if "I y" and "Q y" and "scan_entry cfg dir b' y = (r', y')" for b' y r' y'
      using that by (rule keep)
  qed
  then show ?thesis
    unfolding Q_def by blast
qed

text \<open>
  A candidate whose lock file is in use at the start of the loop: no pass of the loop,
  for whatever entry, deletes the lock file or the library file or calls \<open>os.unlink\<close> on
  the library file.
\<close>

lemma scan_loop_in_use:
  assumes m: "regex_search (tmp_prefix cfg) (dll_suffix cfg) b = Some g"
      and v: "fst (os_unlink (dir, g @ lck_suffix) w)
                = Inl (WindowsError ERROR_SHARING_VIOLATION)"
      and start: "fault x0 = fault w" "length (trace w) \<le> length (trace x0)"
        "files x0 = files w" "EvUnlink (dir, b) \<notin> set (drop (length (trace w)) (trace x0))"
      and loop: "scan_loop cfg dir names x0 = (r, x')"
  shows "map_of (files x') (dir, g @ lck_suffix) = map_of (files w) (dir, g @ lck_suffix)
    \<and> map_of (files x') (dir, b) = map_of (files w) (dir, b)
    \<and> EvUnlink (dir, b) \<notin> set (drop (length (trace w)) (trace x'))"
proof -
  let ?lock = "(dir, g @ lck_suffix)" and ?dll = "(dir, b)"
  let ?n = "length (trace w)"
  define K where "K = (\<lambda>y::world. fault y = fault w \<and> ?n \<le> length (trace y)
      \<and> map_of (files y) ?lock = map_of (files w) ?lock
      \<and> map_of (files y) ?dll = map_of (files w) ?dll
      \<and> EvUnlink ?dll \<notin> set (drop ?n (trace y)))"
  have step: "K y'" if k: "K y" and run: "scan_entry cfg dir b' y = (r', y')" for b' y r' y'
  proof (cases "regex_search (tmp_prefix cfg) (dll_suffix cfg) b'")
    case None
    with run k show ?thesis by (simp add: scan_entry_unmatched)
  next
    case (Some g')
    let ?lock' = "(dir, g' @ lck_suffix)" and ?dll' = "(dir, b')"
    note e = scan_entry_effect [OF Some run]
    from k have fl: "fault y = fault w" and len: "?n \<le> length (trace y)"
      and kl: "map_of (files y) ?lock = map_of (files w) ?lock"
      and kd: "map_of (files y) ?dll = map_of (files w) ?dll"
      and kn: "EvUnlink ?dll \<notin> set (drop ?n (trace y))"
      by (simp_all add: K_def)
    from os_unlink_same_outcome [OF fl kl] v
    have busy: "fst (os_unlink ?lock y) = Inl (WindowsError ERROR_SHARING_VIOLATION)"
      by simp
    then have stops: "fst (os_unlink ?lock y) \<noteq> Inr ()"
      "\<not> (fst (os_unlink ?lock y) = Inr ()
          \<or> fst (os_unlink ?lock y) = Inl (WindowsError ERROR_FILE_NOT_FOUND))"
      by (simp_all add: winerror_defs)
    from candidate_is_no_lock [OF m] have a1: "?dll \<noteq> ?lock'"
      by simp
    from candidate_is_no_lock [OF Some] have a2: "?lock \<noteq> ?dll'"
      by auto
    have a4: "?lock' = ?lock" if "?dll' = ?dll"
      using that m Some by simp
    have lock_kept: "map_of (files y') ?lock = map_of (files y) ?lock"
    proof (cases "?lock' = ?lock")
      case True
      with e(5) stops(1) show ?thesis by simp
    next
      case False
      then have "?lock \<noteq> ?lock'" by simp
      from e(3) [OF this a2] show ?thesis .
    qed
    have dll_kept: "map_of (files y') ?dll = map_of (files y) ?dll"
    proof (cases "?dll' = ?dll")
      case True
      from a4 [OF True] stops(2)
      have "\<not> ((fst (os_unlink ?lock' y) = Inr ()
              \<or> fst (os_unlink ?lock' y) = Inl (WindowsError ERROR_FILE_NOT_FOUND))
             \<and> fst (os_unlink ?dll' y) = Inr ())"
        by simp
      from e(7) [OF this] True show ?thesis by simp
    next
      case False
      then have "?dll \<noteq> ?dll'" by simp
      from e(3) [OF a1 this] show ?thesis .
    qed
    from e(2) obtain evs where t: "trace y' = trace y @ EvUnlink ?lock' # evs"
      and only: "\<forall>q. EvUnlink q \<in> set evs \<longrightarrow>
          q = ?dll' \<and> (fst (os_unlink ?lock' y) = Inr ()
             \<or> fst (os_unlink ?lock' y) = Inl (WindowsError ERROR_FILE_NOT_FOUND))"
      by blast
    have "EvUnlink ?dll \<notin> set evs"
    proof
      assume "EvUnlink ?dll \<in> set evs"
      with only have same: "?dll = ?dll'"
        and "fst (os_unlink ?lock' y) = Inr ()
             \<or> fst (os_unlink ?lock' y) = Inl (WindowsError ERROR_FILE_NOT_FOUND)"
        by blast+
      with a4 stops(2) show False by simp
    qed
    with t len kn a1 have "EvUnlink ?dll \<notin> set (drop ?n (trace y'))"
      by simp
    moreover from t len have "?n \<le> length (trace y')" by simp
    moreover from e(1) fl have "fault y' = fault w" by simp
    ultimately show ?thesis
      using lock_kept dll_kept kl kd by (simp add: K_def)
  qed
  have "K x'"
  proof (rule scan_loop_invariant [where I = K])
    from start show "K x0"
      by (simp add: K_def)
    show "scan_loop cfg dir names x0 = (r, x')"
      by (rule loop)
    show "K y'" if "K y" and "scan_entry cfg dir b' y = (r', y')" for b' y r' y'
      using that by (rule step)
  qed
  then show ?thesis
    by (simp add: K_def)
qed

subsection \<open>The cleanup pass\<close>

lemma os_listdir_listed:
  assumes "os_listdir dir w = (Inr names, w1)"
  shows "w1 = log (EvListdir dir) w"
  using assms by (auto simp: os_listdir_def Let_def split: option.splits)

lemma delete_old_files_of_loop:
  assumes "os_listdir dir w = (Inr names, w1)"
      and "scan_loop cfg dir names w1 = (r, x')"
  shows "files (snd (delete_old_files cfg dir w)) = files x'"
    and "trace (snd (delete_old_files cfg dir w)) = trace x'
         \<or> (\<exists>e. trace (snd (delete_old_files cfg dir w)) = trace x' @ [EvUnhandledExc e])"
    and "r = Inr () \<Longrightarrow> snd (delete_old_files cfg dir w) = x'"
  using assms
  by (auto simp: delete_old_files_def scan_body_def unhandled_exc_handler_def log_def
      split: sum.splits)

text \<open>
  C2. Take a directory entry that matches the pattern of the library files; its paired
  lock file is the entry's name with the library suffix replaced by \<open>.lck\<close>.

  One pass of the loop body for the entry, in any world: when deleting the lock file
  succeeds or fails with \<open>ERROR_FILE_NOT_FOUND\<close>, the pass goes on to delete the library
  file (the next call is \<open>os.unlink\<close> on it, and when that call succeeds the library file
  is gone); when deleting the lock file fails with \<open>ERROR_SHARING_VIOLATION\<close>, the pass is
  over for this entry after that one call, with all files as they were.

  The whole cleanup pass, when the entry is in the listing of the directory. If deleting
  the lock file fails with \<open>ERROR_SHARING_VIOLATION\<close> at the start of the pass, then the
  pass never calls \<open>os.unlink\<close> on the library file, and the lock file and the library
  file are at the end what they were at the start. And if \<open>os.unlink\<close> raises nothing
  but \<open>WindowsError\<close>, the pass reaches the entry: it calls \<open>os.unlink\<close> on the lock file;
  if that delete succeeds or fails with \<open>ERROR_FILE_NOT_FOUND\<close> at the start of the pass,
  it calls \<open>os.unlink\<close> on the library file too; a lock file that could be deleted at the
  start is gone at the end, and so is a library file that could be deleted.
\<close>

theorem scanner_follows_lock:
  assumes "regex_search (tmp_prefix cfg) (dll_suffix cfg) basename = Some g"
  shows "dll_to_lck cfg (dir, basename) = Inr (dir, g @ lck_suffix)
    \<and> (\<forall>w1. os_unlink (dir, g @ lck_suffix) w = (Inr (), w1)
             \<or> os_unlink (dir, g @ lck_suffix) w = (Inl (WindowsError ERROR_FILE_NOT_FOUND), w1)
          \<longrightarrow> scan_entry cfg dir basename w = delete_dll (dir, basename) w1
            \<and> (\<exists>rest. new_events w (snd (scan_entry cfg dir basename w))
                  = EvUnlink (dir, g @ lck_suffix) # EvUnlink (dir, basename) # rest)
            \<and> (\<forall>w2. os_unlink (dir, basename) w1 = (Inr (), w2)
                  \<longrightarrow> scan_entry cfg dir basename w = (Inr (), w2)
                    \<and> \<not> os_path_exists (dir, basename) w2))
    \<and> (\<forall>w1. os_unlink (dir, g @ lck_suffix) w
               = (Inl (WindowsError ERROR_SHARING_VIOLATION), w1)
          \<longrightarrow> scan_entry cfg dir basename w = (Inr (), w1)
            \<and> files w1 = files w
            \<and> new_events w w1 = [EvUnlink (dir, g @ lck_suffix)])
    \<and> (\<forall>names w1. os_listdir dir w = (Inr names, w1) \<and> basename \<in> set names \<longrightarrow>
          (fst (os_unlink (dir, g @ lck_suffix) w) = Inl (WindowsError ERROR_SHARING_VIOLATION)
            \<longrightarrow> EvUnlink (dir, basename)
                  \<notin> set (new_events w (snd (delete_old_files cfg dir w)))
              \<and> map_of (files (snd (delete_old_files cfg dir w))) (dir, g @ lck_suffix)
                  = map_of (files w) (dir, g @ lck_suffix)
              \<and> map_of (files (snd (delete_old_files cfg dir w))) (dir, basename)
                  = map_of (files w) (dir, basename))
          \<and> ((\<forall>q e. fault w (OpUnlink q) = Some e \<longrightarrow> (\<exists>n. e = WindowsError n))
            \<longrightarrow> EvUnlink (dir, g @ lck_suffix)
                  \<in> set (new_events w (snd (delete_old_files cfg dir w)))
              \<and> (fst (os_unlink (dir, g @ lck_suffix) w) = Inr ()
                   \<or> fst (os_unlink (dir, g @ lck_suffix) w)
                       = Inl (WindowsError ERROR_FILE_NOT_FOUND)
                  \<longrightarrow> EvUnlink (dir, basename)
                        \<in> set (new_events w (snd (delete_old_files cfg dir w))))
              \<and> (fst (os_unlink (dir, g @ lck_suffix) w) = Inr ()
                  \<longrightarrow> \<not> os_path_exists (dir, g @ lck_suffix)
                          (snd (delete_old_files cfg dir w)))
              \<and> ((fst (os_unlink (dir, g @ lck_suffix) w) = Inr ()
                    \<or> fst (os_unlink (dir, g @ lck_suffix) w)
                        = Inl (WindowsError ERROR_FILE_NOT_FOUND))
                   \<and> fst (os_unlink (dir, basename) w) = Inr ()
                  \<longrightarrow> \<not> os_path_exists (dir, basename)
                          (snd (delete_old_files cfg dir w)))))"
proof -
  let ?lock = "(dir, g @ lck_suffix)" and ?dll = "(dir, basename)"
  let ?end = "snd (delete_old_files cfg dir w)"
  let ?n = "length (trace w)"
  note entry = scan_entry_cases [OF assms, of dir w]
  have pass: "(fst (os_unlink ?lock w) = Inl (WindowsError ERROR_SHARING_VIOLATION)
            \<longrightarrow> EvUnlink ?dll \<notin> set (new_events w ?end)
              \<and> map_of (files ?end) ?lock = map_of (files w) ?lock
              \<and> map_of (files ?end) ?dll = map_of (files w) ?dll)
          \<and> ((\<forall>q e. fault w (OpUnlink q) = Some e \<longrightarrow> (\<exists>n. e = WindowsError n))
            \<longrightarrow> EvUnlink ?lock \<in> set (new_events w ?end)
              \<and> (fst (os_unlink ?lock w) = Inr ()
                   \<or> fst (os_unlink ?lock w) = Inl (WindowsError ERROR_FILE_NOT_FOUND)
                  \<longrightarrow> EvUnlink ?dll \<in> set (new_events w ?end))
              \<and> (fst (os_unlink ?lock w) = Inr () \<longrightarrow> \<not> os_path_exists ?lock ?end)
              \<and> ((fst (os_unlink ?lock w) = Inr ()
                    \<or> fst (os_unlink ?lock w) = Inl (WindowsError ERROR_FILE_NOT_FOUND))
                   \<and> fst (os_unlink ?dll w) = Inr ()
                  \<longrightarrow> \<not> os_path_exists ?dll ?end))"
    if listing: "os_listdir dir w = (Inr names, w1)" and mem: "basename \<in> set names"
    for names w1
  proof -
    from os_listdir_listed [OF listing] have w1: "w1 = log (EvListdir dir) w" .
    then have fl: "fault w1 = fault w" and len: "?n \<le> length (trace w1)"
      and fs: "files w1 = files w"
      and fresh: "EvUnlink ?dll \<notin> set (drop ?n (trace w1))"
      by (simp_all add: log_def)
    obtain r x' where loop: "scan_loop cfg dir names w1 = (r, x')"
      by (cases "scan_loop cfg dir names w1")
    note fin = delete_old_files_of_loop [OF listing loop]
    from scan_loop_quiet [OF loop] len have len': "?n \<le> length (trace x')"
      by auto
    show ?thesis
    proof (intro conjI impI)
      assume v: "fst (os_unlink ?lock w) = Inl (WindowsError ERROR_SHARING_VIOLATION)"
      from scan_loop_in_use [OF assms v fl len fs fresh loop]
      have kl: "map_of (files x') ?lock = map_of (files w) ?lock"
        and kd: "map_of (files x') ?dll = map_of (files w) ?dll"
        and kn: "EvUnlink ?dll \<notin> set (drop ?n (trace x'))"
        by simp_all
      from fin(2) kn len' show "EvUnlink ?dll \<notin> set (new_events w ?end)"
        by (auto simp: new_events_def)
      from fin(1) kl show "map_of (files ?end) ?lock = map_of (files w) ?lock"
        by simp
      from fin(1) kd show "map_of (files ?end) ?dll = map_of (files w) ?dll"
        by simp
    next
      assume h: "\<forall>q e. fault w (OpUnlink q) = Some e \<longrightarrow> (\<exists>n. e = WindowsError n)"
      with fl have "\<forall>q e. fault w1 (OpUnlink q) = Some e \<longrightarrow> (\<exists>n. e = WindowsError n)"
        by simp
      from scan_loop_normal [OF this loop] have "r = Inr ()" .
      from fin(3) [OF this] have e: "?end = x'" .
      note c = scan_loop_candidate [OF assms h fl len fs mem loop]
      from c e show "EvUnlink ?lock \<in> set (new_events w ?end)"
        by (simp add: new_events_def)
      {
        assume "fst (os_unlink ?lock w) = Inr ()
                \<or> fst (os_unlink ?lock w) = Inl (WindowsError ERROR_FILE_NOT_FOUND)"
        with c e show "EvUnlink ?dll \<in> set (new_events w ?end)"
          by (simp add: new_events_def)
      }
      {
        assume "fst (os_unlink ?lock w) = Inr ()"
        with c e show "\<not> os_path_exists ?lock ?end"
          by (simp add: os_path_exists_def)
      }
      {
        assume "(fst (os_unlink ?lock w) = Inr ()
                  \<or> fst (os_unlink ?lock w) = Inl (WindowsError ERROR_FILE_NOT_FOUND))
                \<and> fst (os_unlink ?dll w) = Inr ()"
        with c e show "\<not> os_path_exists ?dll ?end"
          by (simp add: os_path_exists_def)
      }
    qed
  qed
  from entry pass show ?thesis
    by blast
qed

theorem scanner_follows_lock_witness:
  "regex_search (tmp_prefix loader_config) (dll_suffix loader_config) (snd old_dll)
     = Some (tmp_prefix loader_config @ ''0ldrun'')
   \<and> scan_entry loader_config ''Temp'' (snd old_dll) orphan_world
     = (Inr (), orphan_world\<lparr>files := [], trace := [EvUnlink old_lock, EvUnlink old_dll]\<rparr>)
   \<and> scan_entry loader_config ''Temp'' (snd old_dll) lockless_world
     = (Inr (), lockless_world\<lparr>files := [], trace := [EvUnlink old_lock, EvUnlink old_dll]\<rparr>)
   \<and> scan_entry loader_config ''Temp'' (snd old_dll) busy_world
     = (Inr (), busy_world\<lparr>trace := [EvUnlink old_lock]\<rparr>)
   \<and> delete_old_files loader_config ''Temp'' orphan_world
     = (Inr (), orphan_world\<lparr>files := [],
          trace := [EvListdir ''Temp'', EvUnlink old_lock, EvUnlink old_dll]\<rparr>)
   \<and> \<not> os_path_exists old_lock (snd (delete_old_files loader_config ''Temp'' orphan_world))
   \<and> \<not> os_path_exists old_dll (snd (delete_old_files loader_config ''Temp'' orphan_world))
   \<and> EvUnlink old_dll
       \<in> set (new_events lockless_world
                (snd (delete_old_files loader_config ''Temp'' lockless_world)))
   \<and> \<not> os_path_exists old_dll (snd (delete_old_files loader_config ''Temp'' lockless_world))
   \<and> delete_old_files loader_config ''Temp'' busy_world
     = (Inr (), busy_world\<lparr>trace := [EvListdir ''Temp'', EvUnlink old_lock]\<rparr>)
   \<and> EvUnlink old_dll
       \<notin> set (new_events busy_world (snd (delete_old_files loader_config ''Temp'' busy_world)))
   \<and> map_of (files (snd (delete_old_files loader_config ''Temp'' busy_world))) old_lock
       = Some \<lparr>content = [], held = True\<rparr>
   \<and> map_of (files (snd (delete_old_files loader_config ''Temp'' busy_world))) old_dll
       = Some \<lparr>content = ''MZ-old'', held = True\<rparr>"
proof -
  have lock: "(''Temp'', (tmp_prefix loader_config @ ''0ldrun'') @ lck_suffix) = old_lock"
    and dll: "(''Temp'', snd old_dll) = old_dll"
    by (simp_all add: old_lock_def old_dll_def lck_suffix_def)
  note world_defs = orphan_world_def lockless_world_def busy_world_def empty_world_def
    old_lock_def old_dll_def
  note all = scanner_follows_lock [OF old_dll_matches, of "''Temp''", unfolded lock dll]
  note entry_goes_on = all [THEN conjunct2, THEN conjunct1, rule_format]
  note entry_stops = all [THEN conjunct2, THEN conjunct2, THEN conjunct1, rule_format]
  note pass = all [THEN conjunct2, THEN conjunct2, THEN conjunct2, rule_format]
  have quiet_fault: "\<forall>q e. fault x (OpUnlink q) = Some e \<longrightarrow> (\<exists>n. e = WindowsError n)"
    if "fault x = (\<lambda>op. None)" for x
    using that by simp
  have o1: "os_unlink old_lock orphan_world
     = (Inr (), orphan_world\<lparr>files := [(old_dll, \<lparr>content = ''MZ-old'', held = False\<rparr>)],
                              trace := [EvUnlink old_lock]\<rparr>)"
    by (simp add: os_unlink_def fs_remove_def log_def world_defs Let_def)
  have o2: "os_unlink old_dll
       (orphan_world\<lparr>files := [(old_dll, \<lparr>content = ''MZ-old'', held = False\<rparr>)],
                      trace := [EvUnlink old_lock]\<rparr>)
     = (Inr (), orphan_world\<lparr>files := [], trace := [EvUnlink old_lock, EvUnlink old_dll]\<rparr>)"
    by (simp add: os_unlink_def fs_remove_def log_def world_defs Let_def)
  from entry_goes_on [of orphan_world, OF disjI1 [OF o1]] o2
  have orphan_entry: "scan_entry loader_config ''Temp'' (snd old_dll) orphan_world
     = (Inr (), orphan_world\<lparr>files := [], trace := [EvUnlink old_lock, EvUnlink old_dll]\<rparr>)"
    by blast
  have o_list: "os_listdir ''Temp'' orphan_world
     = (Inr [snd old_dll, snd old_lock], log (EvListdir ''Temp'') orphan_world)"
    by (simp add: os_listdir_def log_def world_defs Let_def)
  have o_mem: "snd old_dll \<in> set [snd old_dll, snd old_lock]"
    by simp
  have o_fault: "\<forall>q e. fault orphan_world (OpUnlink q) = Some e \<longrightarrow> (\<exists>n. e = WindowsError n)"
    by (rule quiet_fault) (simp add: world_defs)
  have o_lock: "fst (os_unlink old_lock orphan_world) = Inr ()"
    using o1 by simp
  have o_dll: "fst (os_unlink old_dll orphan_world) = Inr ()"
    by (simp add: os_unlink_def fs_remove_def log_def world_defs Let_def)
  note o_pass = pass [of orphan_world, OF conjI [OF o_list o_mem], THEN conjunct2, THEN mp,
      OF o_fault]
  from o_pass o_lock o_dll
  have orphan_gone:
    "\<not> os_path_exists old_lock (snd (delete_old_files loader_config ''Temp'' orphan_world))"
    "\<not> os_path_exists old_dll (snd (delete_old_files loader_config ''Temp'' orphan_world))"
    by blast+
  have orphan_pass: "delete_old_files loader_config ''Temp'' orphan_world
     = (Inr (), orphan_world\<lparr>files := [],
          trace := [EvListdir ''Temp'', EvUnlink old_lock, EvUnlink old_dll]\<rparr>)"
    by (simp add: extract_defs os_defs winerror_defs loader_config_simps regex_search_prefixed
        regex_search_other_suffix lck_is_no_dll ci_eq_suffixes lck_suffix_def world_defs
        Let_def)
  have l1: "os_unlink old_lock lockless_world
     = (Inl (WindowsError ERROR_FILE_NOT_FOUND), lockless_world\<lparr>trace := [EvUnlink old_lock]\<rparr>)"
    by (simp add: os_unlink_def fs_remove_def log_def world_defs Let_def)
  have l2: "os_unlink old_dll (lockless_world\<lparr>trace := [EvUnlink old_lock]\<rparr>)
     = (Inr (), lockless_world\<lparr>files := [], trace := [EvUnlink old_lock, EvUnlink old_dll]\<rparr>)"
    by (simp add: os_unlink_def fs_remove_def log_def world_defs Let_def)
  from entry_goes_on [of lockless_world, OF disjI2 [OF l1]] l2
  have lockless_entry: "scan_entry loader_config ''Temp'' (snd old_dll) lockless_world
     = (Inr (), lockless_world\<lparr>files := [], trace := [EvUnlink old_lock, EvUnlink old_dll]\<rparr>)"
    by blast
  have l_list: "os_listdir ''Temp'' lockless_world
     = (Inr [snd old_dll], log (EvListdir ''Temp'') lockless_world)"
    by (simp add: os_listdir_def log_def world_defs Let_def)
  have l_mem: "snd old_dll \<in> set [snd old_dll]"
    by simp
  have l_fault: "\<forall>q e. fault lockless_world (OpUnlink q) = Some e \<longrightarrow> (\<exists>n. e = WindowsError n)"
    by (rule quiet_fault) (simp add: world_defs)
  have l_lock: "fst (os_unlink old_lock lockless_world) = Inl (WindowsError ERROR_FILE_NOT_FOUND)"
    using l1 by simp
  have l_dll: "fst (os_unlink old_dll lockless_world) = Inr ()"
    by (simp add: os_unlink_def fs_remove_def log_def world_defs Let_def)
  note l_pass = pass [of lockless_world, OF conjI [OF l_list l_mem], THEN conjunct2, THEN mp,
      OF l_fault]
  from l_pass l_lock l_dll
  have lockless_gone: "EvUnlink old_dll
       \<in> set (new_events lockless_world
                (snd (delete_old_files loader_config ''Temp'' lockless_world)))"
    "\<not> os_path_exists old_dll (snd (delete_old_files loader_config ''Temp'' lockless_world))"
    by blast+
  have b1: "os_unlink old_lock busy_world
     = (Inl (WindowsError ERROR_SHARING_VIOLATION), busy_world\<lparr>trace := [EvUnlink old_lock]\<rparr>)"
    by (simp add: os_unlink_def fs_remove_def log_def world_defs Let_def)
  from entry_stops [of busy_world, OF b1]
  have busy_entry: "scan_entry loader_config ''Temp'' (snd old_dll) busy_world
     = (Inr (), busy_world\<lparr>trace := [EvUnlink old_lock]\<rparr>)"
    by blast
  have b_list: "os_listdir ''Temp'' busy_world
     = (Inr [snd old_dll, snd old_lock], log (EvListdir ''Temp'') busy_world)"
    by (simp add: os_listdir_def log_def world_defs Let_def)
  have b_lock: "fst (os_unlink old_lock busy_world) = Inl (WindowsError ERROR_SHARING_VIOLATION)"
    using b1 by simp
  note b_pass = pass [of busy_world, OF conjI [OF b_list o_mem], THEN conjunct1, THEN mp,
      OF b_lock]
  have b_files: "map_of (files busy_world) old_lock = Some \<lparr>content = [], held = True\<rparr>"
    "map_of (files busy_world) old_dll = Some \<lparr>content = ''MZ-old'', held = True\<rparr>"
    by (simp_all add: world_defs)
  from b_pass b_files
  have busy_kept: "EvUnlink old_dll
       \<notin> set (new_events busy_world (snd (delete_old_files loader_config ''Temp'' busy_world)))"
    "map_of (files (snd (delete_old_files loader_config ''Temp'' busy_world))) old_lock
       = Some \<lparr>content = [], held = True\<rparr>"
    "map_of (files (snd (delete_old_files loader_config ''Temp'' busy_world))) old_dll
       = Some \<lparr>content = ''MZ-old'', held = True\<rparr>"
    by simp_all
  have busy_pass: "delete_old_files loader_config ''Temp'' busy_world
     = (Inr (), busy_world\<lparr>trace := [EvListdir ''Temp'', EvUnlink old_lock]\<rparr>)"
    by (simp add: extract_defs os_defs winerror_defs loader_config_simps regex_search_prefixed
        regex_search_other_suffix lck_is_no_dll ci_eq_suffixes lck_suffix_def world_defs
        Let_def)
  from old_dll_matches orphan_entry lockless_entry busy_entry orphan_pass orphan_gone
    lockless_gone busy_pass busy_kept
  show ?thesis by simp
qed

end
